theory Spec2Isabelle
  imports Complex_Main "HOL-Library.Word"
begin

section \<open>Data model of the language model (lang\_model.cpp)\<close>

text \<open>
  Only \<^verbatim>\<open>lang_model.cpp\<close> is available; the header it includes and the contributed
  libraries (perfect hash, CityHash, the save/load primitives, the tokenizer) are not.
  What the header declares is taken as a parameter: the integer types \<^verbatim>\<open>TWordId\<close>,
  \<^verbatim>\<open>TCount\<close> and the type of \<^verbatim>\<open>TotalWords\<close> are machine words of arbitrary
  widths \<open>'w\<close>, \<open>'c\<close>, \<open>'t\<close>, and the constants and external functions are the fields
  of the record \<open>extern\<close>.
\<close>

type_synonym wchar_t = nat
type_synonym wstring = "wchar_t list"
type_synonym bytes = "8 word list"

subsection \<open>Doubles\<close>

text \<open>
  A \<^verbatim>\<open>double\<close> is a real number, one of the two infinities, or not-a-number.
  The operations are exact on real numbers: rounding, overflow to infinity, underflow to
  zero and the sign of zero are not modelled (every zero that is divided by below is a
  sum of non-negative counts, hence \<open>+0\<close>).
\<close>

datatype double = Finite real | PosInf | NegInf | NaN

fun dadd :: "double \<Rightarrow> double \<Rightarrow> double" where
  "dadd (Finite a) (Finite b) = Finite (a + b)"
| "dadd NaN _ = NaN"
| "dadd _ NaN = NaN"
| "dadd PosInf NegInf = NaN"
| "dadd NegInf PosInf = NaN"
| "dadd PosInf _ = PosInf"
| "dadd _ PosInf = PosInf"
| "dadd NegInf _ = NegInf"
| "dadd _ NegInf = NegInf"

fun ddiv :: "double \<Rightarrow> double \<Rightarrow> double" where
  "ddiv NaN _ = NaN"
| "ddiv _ NaN = NaN"
| "ddiv (Finite a) (Finite b) =
     (if b \<noteq> 0 then Finite (a / b)
      else if 0 < a then PosInf else if a < 0 then NegInf else NaN)"
| "ddiv (Finite a) _ = Finite 0"
| "ddiv PosInf (Finite b) = (if 0 \<le> b then PosInf else NegInf)"
| "ddiv NegInf (Finite b) = (if 0 \<le> b then NegInf else PosInf)"
| "ddiv _ _ = NaN"

fun dlog :: "double \<Rightarrow> double" where
  "dlog (Finite a) = (if 0 < a then Finite (ln a) else if a = 0 then NegInf else NaN)"
| "dlog PosInf = PosInf"
| "dlog NegInf = NaN"
| "dlog NaN = NaN"

text \<open>The comparison \<^verbatim>\<open>a > b\<close> of two doubles; false when either is not-a-number.\<close>

fun dgt :: "double \<Rightarrow> double \<Rightarrow> bool" where
  "dgt (Finite a) (Finite b) = (b < a)"
| "dgt NaN _ = False"
| "dgt _ NaN = False"
| "dgt PosInf PosInf = False"
| "dgt PosInf _ = True"
| "dgt _ PosInf = False"
| "dgt NegInf _ = False"
| "dgt _ NegInf = True"

text \<open>Conversion of an unsigned integer to double (\<^verbatim>\<open>double x = count\<close>).\<close>

definition to_double :: "'a::len word \<Rightarrow> double" where
  "to_double c = Finite (real (unat c))"

text \<open>\<^verbatim>\<open>std::numeric_limits<double>::min()\<close>: the smallest positive normalised double.\<close>

definition DBL_MIN :: double where
  "DBL_MIN = Finite (1 / 2 ^ 1022)"

subsection \<open>Errors\<close>

text \<open>
  A failed \<^verbatim>\<open>assert\<close> aborts the process; an index past the end of a vector is
  undefined behaviour. Both are results of the model.
\<close>

datatype error = AssertionFailed | OutOfRange

subsection \<open>Words, the external primitives, the model\<close>

text \<open>
  \<^verbatim>\<open>TWord\<close> is a view: a pointer to characters and a length. \<open>Ptr = None\<close> is the
  null pointer; \<open>Some buf\<close> points at the characters \<open>buf\<close>.
\<close>

record TWord =
  Ptr :: "wstring option"
  Len :: nat

text \<open>\<^verbatim>\<open>std::wstring w(word.Ptr, word.Len)\<close>\<close>

definition wstring_of :: "TWord \<Rightarrow> wstring" where
  "wstring_of word = (case Ptr word of None \<Rightarrow> [] | Some buf \<Rightarrow> take (Len word) buf)"

text \<open>
  \<^verbatim>\<open>TPerfectHash\<close>, by what the code observes of it: \<^verbatim>\<open>ph.Hash(key)\<close> (assigned to a
  \<^verbatim>\<open>uint32_t\<close>) and \<^verbatim>\<open>ph.BucketsNumber()\<close>.
\<close>

record TPerfectHash =
  Hash :: "bytes \<Rightarrow> 32 word"
  BucketsNumber :: nat

text \<open>
  The constants of the header and the functions of the libraries, as parameters.
  \<open>DumpKey1\<close>, \<open>DumpKey2\<close>, \<open>DumpKey3\<close> are the three instances of the template
  \<^verbatim>\<open>DumpKey\<close> (serialisation of a key by \<^verbatim>\<open>NSaveLoad::Save\<close>);
  \<open>PerfectHash_Init\<close> is \<^verbatim>\<open>PerfectHash.Init(keys)\<close>; \<open>Tokenizer_Process\<close> is
  \<^verbatim>\<open>Tokenizer.Process(text)\<close> of a tokenizer with the given alphabet.
\<close>

record 'w extern =
  UnknownWordId :: 'w
  MAGIC_BYTE :: "64 word"
  VERSION :: "16 word"
  DEFAULT_K :: double
  CityHash32 :: "bytes \<Rightarrow> 32 word"
  DumpKey1 :: "'w \<Rightarrow> bytes"
  DumpKey2 :: "'w \<times> 'w \<Rightarrow> bytes"
  DumpKey3 :: "'w \<times> 'w \<times> 'w \<Rightarrow> bytes"
  PerfectHash_Init :: "bytes list \<Rightarrow> TPerfectHash"
  Tokenizer_Process :: "wchar_t set \<Rightarrow> wstring \<Rightarrow> TWord list list"

text \<open>
  The fields of \<^verbatim>\<open>TLangModel\<close> that the code reads and writes. An
  \<^verbatim>\<open>unordered_map\<close> is an association list with distinct keys, in its iteration
  order; \<^verbatim>\<open>IdToWord\<close> holds pointers to the stored strings (\<open>None\<close> is
  \<^verbatim>\<open>nullptr\<close>); the tokenizer is its alphabet.
\<close>

record ('w, 'c, 't) TLangModel =
  K :: double
  WordToId :: "(wstring \<times> 'w) list"
  IdToWord :: "wstring option list"
  LastWordID :: 'w
  TotalWords :: 't
  Grams1 :: "('w \<times> 'c) list"
  Grams2 :: "(('w \<times> 'w) \<times> 'c) list"
  Grams3 :: "(('w \<times> 'w \<times> 'w) \<times> 'c) list"
  Tokenizer :: "wchar_t set"
  Buckets :: "(32 word \<times> 'c) list"
  PerfectHash :: TPerfectHash

section \<open>Vocabulary\<close>

text \<open>\<^verbatim>\<open>TLangModel::GetWordId\<close>: two assertions, then find or insert.\<close>

definition GetWordId ::
  "('w::len word, 'c, 't) TLangModel \<Rightarrow> TWord
    \<Rightarrow> error + ('w word \<times> ('w word, 'c, 't) TLangModel)" where
  "GetWordId m word =
     (if \<not> (Ptr word \<noteq> None \<and> Len word \<noteq> 0) then Inl AssertionFailed
      else if \<not> (Len word < 10000) then Inl AssertionFailed
      else
        let w = wstring_of word in
        (case map_of (WordToId m) w of
           Some wid \<Rightarrow> Inr (wid, m)
         | None \<Rightarrow>
             let wordId = LastWordID m;
                 m1 = m\<lparr>LastWordID := LastWordID m + 1\<rparr>;
                 m2 = m1\<lparr>WordToId := WordToId m1 @ [(w, wordId)]\<rparr>;
                 m3 = m2\<lparr>IdToWord := IdToWord m2 @ [Some w]\<rparr>
             in Inr (wordId, m3)))"

text \<open>\<^verbatim>\<open>TLangModel::GetWordIdNoCreate\<close>, a \<^verbatim>\<open>const\<close> method: it returns an id only.\<close>

definition GetWordIdNoCreate ::
  "'w extern \<Rightarrow> ('w, 'c, 't) TLangModel \<Rightarrow> TWord \<Rightarrow> 'w" where
  "GetWordIdNoCreate env m word =
     (case map_of (WordToId m) (wstring_of word) of
        Some wid \<Rightarrow> wid
      | None \<Rightarrow> UnknownWordId env)"

text \<open>\<^verbatim>\<open>TLangModel::ConvertToIds\<close>: the inner loop over the words of a sentence.\<close>

fun ConvertWords ::
  "('w::len word, 'c, 't) TLangModel \<Rightarrow> TWord list \<Rightarrow> 'w word list
    \<Rightarrow> error + ('w word list \<times> ('w word, 'c, 't) TLangModel)" where
  "ConvertWords m [] wordIds = Inr (wordIds, m)"
| "ConvertWords m (word # words) wordIds =
     (case GetWordId m word of
        Inl e \<Rightarrow> Inl e
      | Inr (wid, m') \<Rightarrow> ConvertWords m' words (wordIds @ [wid]))"

text \<open>The outer loop over the sentences.\<close>

fun ConvertSentences ::
  "('w::len word, 'c, 't) TLangModel \<Rightarrow> TWord list list \<Rightarrow> 'w word list list
    \<Rightarrow> error + ('w word list list \<times> ('w word, 'c, 't) TLangModel)" where
  "ConvertSentences m [] newSentences = Inr (newSentences, m)"
| "ConvertSentences m (words # sentences) newSentences =
     (case ConvertWords m words [] of
        Inl e \<Rightarrow> Inl e
      | Inr (wordIds, m') \<Rightarrow> ConvertSentences m' sentences (newSentences @ [wordIds]))"

definition ConvertToIds ::
  "('w::len word, 'c, 't) TLangModel \<Rightarrow> TWord list list
    \<Rightarrow> error + ('w word list list \<times> ('w word, 'c, 't) TLangModel)" where
  "ConvertToIds m sentences = ConvertSentences m sentences []"

section \<open>Training: the n-gram accumulator\<close>

text \<open>
  \<^verbatim>\<open>grams[key] += 1\<close> on an \<^verbatim>\<open>unordered_map\<close>: a missing key is inserted with
  the value \<^verbatim>\<open>TCount()\<close>, zero, and then incremented.
\<close>

fun incr :: "('k \<times> 'c::len word) list \<Rightarrow> 'k \<Rightarrow> ('k \<times> 'c word) list" where
  "incr [] k = [(k, 0 + 1)]"
| "incr ((k', c) # g) k = (if k' = k then (k', c + 1) # g else (k', c) # incr g k)"

text \<open>The count stored for a key, zero for a key that is absent.\<close>

definition count_of :: "('k \<times> 'c::len word) list \<Rightarrow> 'k \<Rightarrow> 'c word" where
  "count_of g k = (case map_of g k of None \<Rightarrow> 0 | Some c \<Rightarrow> c)"

text \<open>\<^verbatim>\<open>for (auto w: words) { Grams1[w] += 1; TotalWords += 1; }\<close>\<close>

fun Train_unigrams ::
  "('w, 'c::len word, 't::len word) TLangModel \<Rightarrow> 'w list
    \<Rightarrow> ('w, 'c word, 't word) TLangModel" where
  "Train_unigrams m [] = m"
| "Train_unigrams m (w # ws) =
     Train_unigrams (m\<lparr>Grams1 := incr (Grams1 m) w, TotalWords := TotalWords m + 1\<rparr>) ws"

text \<open>
  \<^verbatim>\<open>for (ssize_t j = 0; j < (ssize_t)words.size() - 1; ++j)\<close>: the bound is signed,
  so it is \<open>-1\<close> for an empty sentence and the loop does not run.
\<close>

function Train_bigrams ::
  "('w, 'c::len word, 't) TLangModel \<Rightarrow> 'w list \<Rightarrow> nat
    \<Rightarrow> ('w, 'c word, 't) TLangModel" where
  "Train_bigrams m words j =
     (if int j < int (length words) - 1
      then Train_bigrams (m\<lparr>Grams2 := incr (Grams2 m) (words ! j, words ! (j + 1))\<rparr>)
             words (j + 1)
      else m)"
  by pat_completeness auto
termination
  by (relation "measure (\<lambda>(m, words, j). length words - j)") auto

function Train_trigrams ::
  "('w, 'c::len word, 't) TLangModel \<Rightarrow> 'w list \<Rightarrow> nat
    \<Rightarrow> ('w, 'c word, 't) TLangModel" where
  "Train_trigrams m words j =
     (if int j < int (length words) - 2
      then Train_trigrams
             (m\<lparr>Grams3 := incr (Grams3 m) (words ! j, words ! (j + 1), words ! (j + 2))\<rparr>)
             words (j + 1)
      else m)"
  by pat_completeness auto
termination
  by (relation "measure (\<lambda>(m, words, j). length words - j)") auto

text \<open>The body of the loop over the sentences (lines 76 to 90).\<close>

definition Train_sentence ::
  "('w, 'c::len word, 't::len word) TLangModel \<Rightarrow> 'w list
    \<Rightarrow> ('w, 'c word, 't word) TLangModel" where
  "Train_sentence m words =
     Train_trigrams (Train_bigrams (Train_unigrams m words) words 0) words 0"

text \<open>The loop over the sentences; the progress report on the error stream is left out.\<close>

fun Train_loop ::
  "('w, 'c::len word, 't::len word) TLangModel \<Rightarrow> 'w list list
    \<Rightarrow> ('w, 'c word, 't word) TLangModel" where
  "Train_loop m [] = m"
| "Train_loop m (words # sentenceIds) = Train_loop (Train_sentence m words) sentenceIds"

section \<open>The perfect-hash counter store\<close>

text \<open>\<^verbatim>\<open>PrepareNgramKeys\<close>, with the instance of \<^verbatim>\<open>DumpKey\<close> as an argument.\<close>

fun PrepareNgramKeys :: "('k \<Rightarrow> bytes) \<Rightarrow> ('k \<times> 'c) list \<Rightarrow> bytes list \<Rightarrow> bytes list" where
  "PrepareNgramKeys dump [] keys = keys"
| "PrepareNgramKeys dump (it # grams) keys = PrepareNgramKeys dump grams (keys @ [dump (fst it)])"

text \<open>\<^verbatim>\<open>InitializeBuckets\<close>: the assertion guards the write.\<close>

fun InitializeBuckets ::
  "'w extern \<Rightarrow> ('k \<Rightarrow> bytes) \<Rightarrow> ('k \<times> 'c) list \<Rightarrow> TPerfectHash
    \<Rightarrow> (32 word \<times> 'c) list \<Rightarrow> error + (32 word \<times> 'c) list" where
  "InitializeBuckets env dump [] ph buckets = Inr buckets"
| "InitializeBuckets env dump (it # grams) ph buckets =
     (let key = dump (fst it);
          bucket = Hash ph key
      in if \<not> (unat bucket < length buckets) then Inl AssertionFailed
         else InitializeBuckets env dump grams ph
                (buckets[unat bucket := (CityHash32 env key, snd it)]))"

text \<open>\<^verbatim>\<open>std::vector::resize(n)\<close>: truncate, or pad with value-initialised elements.\<close>

definition resize :: "'a list \<Rightarrow> nat \<Rightarrow> 'a \<Rightarrow> 'a list" where
  "resize xs n d = take n xs @ replicate (n - length xs) d"

text \<open>
  \<^verbatim>\<open>TLangModel::Train\<close>. Reading the two files is outside the model: \<open>alphabet\<close> is
  what \<^verbatim>\<open>Tokenizer.LoadAlphabet\<close> loaded (\<open>None\<close> when it failed) and \<open>trainText\<close>
  is the lower-cased text of the corpus.
\<close>

definition Train ::
  "'w::len word extern \<Rightarrow> ('w word, 'c::len word, 't::len word) TLangModel
    \<Rightarrow> wchar_t set option \<Rightarrow> wstring
    \<Rightarrow> error + (bool \<times> ('w word, 'c word, 't word) TLangModel)" where
  "Train env m alphabet trainText =
     (case alphabet of
        None \<Rightarrow> Inr (False, m)
      | Some a \<Rightarrow>
          let m0 = m\<lparr>Tokenizer := a\<rparr>;
              sentences = Tokenizer_Process env (Tokenizer m0) trainText
          in if sentences = [] then Inr (False, m0)
             else
               (case ConvertToIds m0 sentences of
                  Inl e \<Rightarrow> Inl e
                | Inr (sentenceIds, m1) \<Rightarrow>
                    if length sentences \<noteq> length sentenceIds then Inl AssertionFailed
                    else
                      let m2 = Train_loop m1 sentenceIds;
                          keys = PrepareNgramKeys (DumpKey3 env) (Grams3 m2)
                                  (PrepareNgramKeys (DumpKey2 env) (Grams2 m2)
                                    (PrepareNgramKeys (DumpKey1 env) (Grams1 m2) []));
                          m3 = m2\<lparr>PerfectHash := PerfectHash_Init env keys\<rparr>;
                          m4 = m3\<lparr>Buckets :=
                                  resize (Buckets m3) (BucketsNumber (PerfectHash m3)) (0, 0)\<rparr>
                      in (case InitializeBuckets env (DumpKey1 env) (Grams1 m4)
                                 (PerfectHash m4) (Buckets m4) of
                            Inl e \<Rightarrow> Inl e
                          | Inr b1 \<Rightarrow>
                         (case InitializeBuckets env (DumpKey2 env) (Grams2 m4)
                                 (PerfectHash m4) b1 of
                            Inl e \<Rightarrow> Inl e
                          | Inr b2 \<Rightarrow>
                         (case InitializeBuckets env (DumpKey3 env) (Grams3 m4)
                                 (PerfectHash m4) b2 of
                            Inl e \<Rightarrow> Inl e
                          | Inr b3 \<Rightarrow> Inr (True, m4\<lparr>Buckets := b3\<rparr>))))))"

text \<open>
  \<^verbatim>\<open>GetGramHashCount\<close>. The assertion compares the bucket with
  \<^verbatim>\<open>ph.BucketsNumber()\<close>; the read \<^verbatim>\<open>buckets[bucket]\<close> that follows is in range
  only when the bucket is also below \<^verbatim>\<open>buckets.size()\<close>.
\<close>

definition GetGramHashCount ::
  "'w extern \<Rightarrow> ('k \<Rightarrow> bytes) \<Rightarrow> 'k \<Rightarrow> TPerfectHash \<Rightarrow> (32 word \<times> 'c::len word) list
    \<Rightarrow> error + 'c word" where
  "GetGramHashCount env dump key ph buckets =
     (let s = dump key;
          bucket = Hash ph s
      in if \<not> (unat bucket < BucketsNumber ph) then Inl AssertionFailed
         else if \<not> (unat bucket < length buckets) then Inl OutOfRange
         else
           let data = buckets ! unat bucket
           in if fst data = CityHash32 env s then Inr (snd data) else Inr 0)"

definition GetGram1HashCount ::
  "'w extern \<Rightarrow> ('w, 'c::len word, 't) TLangModel \<Rightarrow> 'w \<Rightarrow> error + 'c word" where
  "GetGram1HashCount env m word =
     (if word = UnknownWordId env then Inr 0
      else GetGramHashCount env (DumpKey1 env) word (PerfectHash m) (Buckets m))"

definition GetGram2HashCount ::
  "'w extern \<Rightarrow> ('w, 'c::len word, 't) TLangModel \<Rightarrow> 'w \<Rightarrow> 'w \<Rightarrow> error + 'c word" where
  "GetGram2HashCount env m word1 word2 =
     (if word1 = UnknownWordId env \<or> word2 = UnknownWordId env then Inr 0
      else GetGramHashCount env (DumpKey2 env) (word1, word2) (PerfectHash m) (Buckets m))"

definition GetGram3HashCount ::
  "'w extern \<Rightarrow> ('w, 'c::len word, 't) TLangModel \<Rightarrow> 'w \<Rightarrow> 'w \<Rightarrow> 'w \<Rightarrow> error + 'c word" where
  "GetGram3HashCount env m word1 word2 word3 =
     (if word1 = UnknownWordId env \<or> word2 = UnknownWordId env \<or> word3 = UnknownWordId env
      then Inr 0
      else GetGramHashCount env (DumpKey3 env) (word1, word2, word3)
             (PerfectHash m) (Buckets m))"

section \<open>The smoothed scorer\<close>

definition GetGram1Prob ::
  "'w extern \<Rightarrow> ('w, 'c::len word, 't::len word) TLangModel \<Rightarrow> 'w \<Rightarrow> error + double" where
  "GetGram1Prob env m word =
     (case GetGram1HashCount env m word of
        Inl e \<Rightarrow> Inl e
      | Inr c \<Rightarrow>
          let countsGram1 = to_double c;
              countsGram1 = dadd countsGram1 (K m);
              vocabSize = Finite (real (length (Grams1 m)))
          in Inr (ddiv countsGram1 (dadd (to_double (TotalWords m)) vocabSize)))"

definition GetGram2Prob ::
  "'w extern \<Rightarrow> ('w, 'c::len word, 't::len word) TLangModel \<Rightarrow> 'w \<Rightarrow> 'w \<Rightarrow> error + double" where
  "GetGram2Prob env m word1 word2 =
     (case GetGram1HashCount env m word1 of
        Inl e \<Rightarrow> Inl e
      | Inr c1 \<Rightarrow>
     (case GetGram2HashCount env m word1 word2 of
        Inl e \<Rightarrow> Inl e
      | Inr c2 \<Rightarrow>
          let countsGram1 = to_double c1;
              countsGram2 = to_double c2;
              countsGram2 = (if dgt countsGram2 countsGram1 then Finite 0 else countsGram2);
              countsGram1 = dadd countsGram1 (to_double (TotalWords m));
              countsGram2 = dadd countsGram2 (K m)
          in Inr (ddiv countsGram2 countsGram1)))"

definition GetGram3Prob ::
  "'w extern \<Rightarrow> ('w, 'c::len word, 't::len word) TLangModel \<Rightarrow> 'w \<Rightarrow> 'w \<Rightarrow> 'w
    \<Rightarrow> error + double" where
  "GetGram3Prob env m word1 word2 word3 =
     (case GetGram2HashCount env m word1 word2 of
        Inl e \<Rightarrow> Inl e
      | Inr c2 \<Rightarrow>
     (case GetGram3HashCount env m word1 word2 word3 of
        Inl e \<Rightarrow> Inl e
      | Inr c3 \<Rightarrow>
          let countsGram2 = to_double c2;
              countsGram3 = to_double c3;
              countsGram3 = (if dgt countsGram3 countsGram2 then Finite 0 else countsGram3);
              countsGram2 = dadd countsGram2 (to_double (TotalWords m));
              countsGram3 = dadd countsGram3 (K m)
          in Inr (ddiv countsGram3 countsGram2)))"

text \<open>The body of the loop of \<^verbatim>\<open>Score\<close>: three additions to \<^verbatim>\<open>result\<close>.\<close>

definition Score_step ::
  "'w extern \<Rightarrow> ('w, 'c::len word, 't::len word) TLangModel \<Rightarrow> 'w list \<Rightarrow> nat \<Rightarrow> double
    \<Rightarrow> error + double" where
  "Score_step env m sentence i result =
     (case GetGram1Prob env m (sentence ! i) of
        Inl e \<Rightarrow> Inl e
      | Inr p1 \<Rightarrow>
     (case GetGram2Prob env m (sentence ! i) (sentence ! (i + 1)) of
        Inl e \<Rightarrow> Inl e
      | Inr p2 \<Rightarrow>
     (case GetGram3Prob env m (sentence ! i) (sentence ! (i + 1)) (sentence ! (i + 2)) of
        Inl e \<Rightarrow> Inl e
      | Inr p3 \<Rightarrow> Inr (dadd (dadd (dadd result (dlog p1)) (dlog p2)) (dlog p3)))))"

text \<open>
  \<^verbatim>\<open>for (size_t i = 0; i < sentence.size() - 2; ++i)\<close>. The sentence has at least
  three entries when the loop is reached, so the unsigned bound does not wrap and every
  index read is in range.
\<close>

function Score_loop ::
  "'w extern \<Rightarrow> ('w, 'c::len word, 't::len word) TLangModel \<Rightarrow> 'w list \<Rightarrow> nat \<Rightarrow> double
    \<Rightarrow> error + double" where
  "Score_loop env m sentence i result =
     (if i < length sentence - 2
      then (case Score_step env m sentence i result of
              Inl e \<Rightarrow> Inl e
            | Inr r \<Rightarrow> Score_loop env m sentence (i + 1) r)
      else Inr result)"
  by pat_completeness auto
termination
  by (relation "measure (\<lambda>(env, m, sentence, i, result). length sentence - 2 - i)") auto

text \<open>The first loop of \<^verbatim>\<open>Score\<close>: \<^verbatim>\<open>sentence.push_back(GetWordIdNoCreate(w))\<close>.\<close>

fun Score_ids ::
  "'w extern \<Rightarrow> ('w, 'c, 't) TLangModel \<Rightarrow> TWord list \<Rightarrow> 'w list \<Rightarrow> 'w list" where
  "Score_ids env m [] sentence = sentence"
| "Score_ids env m (w # words) sentence =
     Score_ids env m words (sentence @ [GetWordIdNoCreate env m w])"

text \<open>\<^verbatim>\<open>double TLangModel::Score(const TWords& words) const\<close>\<close>

definition Score ::
  "'w extern \<Rightarrow> ('w, 'c::len word, 't::len word) TLangModel \<Rightarrow> TWord list \<Rightarrow> error + double" where
  "Score env m words =
     (let sentence = Score_ids env m words []
      in if sentence = [] then Inr DBL_MIN
         else
           let sentence1 = sentence @ [UnknownWordId env];
               sentence2 = sentence1 @ [UnknownWordId env]
           in Score_loop env m sentence2 0 (Finite 0))"

text \<open>The two nested loops of \<^verbatim>\<open>Score(const std::wstring&)\<close>.\<close>

fun push_words :: "TWord list \<Rightarrow> TWord list \<Rightarrow> TWord list" where
  "push_words words [] = words"
| "push_words words (w # s) = push_words (words @ [w]) s"

fun push_sentences :: "TWord list \<Rightarrow> TWord list list \<Rightarrow> TWord list" where
  "push_sentences words [] = words"
| "push_sentences words (s # sentences) = push_sentences (push_words words s) sentences"

text \<open>\<^verbatim>\<open>double TLangModel::Score(const std::wstring& str) const\<close>\<close>

definition ScoreText ::
  "'w extern \<Rightarrow> ('w, 'c::len word, 't::len word) TLangModel \<Rightarrow> wstring \<Rightarrow> error + double" where
  "ScoreText env m str =
     (let sentences = Tokenizer_Process env (Tokenizer m) str;
          words = push_sentences [] sentences
      in Score env m words)"

section \<open>Save and Load\<close>

text \<open>\<^verbatim>\<open>TLangModel::Clear\<close>: the eight statements of its body.\<close>

definition Clear ::
  "'w::len word extern \<Rightarrow> ('w word, 'c, 't::len word) TLangModel
    \<Rightarrow> ('w word, 'c, 't word) TLangModel" where
  "Clear env m =
     m\<lparr>K := DEFAULT_K env, WordToId := [], LastWordID := 0, TotalWords := 0,
       Grams1 := [], Grams2 := [], Grams3 := [], Tokenizer := {}\<rparr>"

text \<open>
  Modelled from the spec: the member functions \<^verbatim>\<open>Save(std::ostream&)\<close> and
  \<^verbatim>\<open>Load(std::istream&)\<close> are declared in the header, which is missing. The payload
  they write and read is, in this order, the smoothing constant \<open>K\<close>, the vocabulary
  as (word, id) entries, \<open>TotalWords\<close>, the perfect-hash index and the bucket array.
\<close>

record ('w, 'c, 't) payload =
  p_K :: double
  p_WordToId :: "(wstring \<times> 'w) list"
  p_TotalWords :: 't
  p_PerfectHash :: TPerfectHash
  p_Buckets :: "(32 word \<times> 'c) list"

definition SavePayload :: "('w, 'c, 't) TLangModel \<Rightarrow> ('w, 'c, 't) payload" where
  "SavePayload m =
     \<lparr>p_K = K m, p_WordToId = WordToId m, p_TotalWords = TotalWords m,
      p_PerfectHash = PerfectHash m, p_Buckets = Buckets m\<rparr>"

definition LoadPayload ::
  "('w, 'c, 't) payload \<Rightarrow> ('w, 'c, 't) TLangModel \<Rightarrow> ('w, 'c, 't) TLangModel" where
  "LoadPayload p m =
     m\<lparr>K := p_K p, WordToId := p_WordToId p, TotalWords := p_TotalWords p,
       PerfectHash := p_PerfectHash p, Buckets := p_Buckets p\<rparr>"

text \<open>
  A model file, by the values that the read primitives deliver from it in order: the
  leading magic (\<^verbatim>\<open>uint64_t\<close>), the version (\<^verbatim>\<open>uint16_t\<close>), the payload and the
  trailing magic. The encoding in bytes belongs to the save/load primitives.
\<close>

record ('w, 'c, 't) model_file =
  f_magic :: "64 word"
  f_version :: "16 word"
  f_payload :: "('w, 'c, 't) payload"
  f_trailer :: "64 word"

text \<open>\<^verbatim>\<open>TLangModel::Save(const std::string&)\<close>\<close>

definition Save :: "'w extern \<Rightarrow> ('w, 'c, 't) TLangModel \<Rightarrow> ('w, 'c, 't) model_file" where
  "Save env m =
     \<lparr>f_magic = MAGIC_BYTE env, f_version = VERSION env,
      f_payload = SavePayload m, f_trailer = MAGIC_BYTE env\<rparr>"

text \<open>
  The last loop of \<^verbatim>\<open>Load\<close>: \<^verbatim>\<open>IdToWord[it.second] = &it.first\<close> for every entry
  of \<^verbatim>\<open>WordToId\<close>. An id past the end of the vector is a write out of range.
\<close>

fun rebuild_IdToWord ::
  "(wstring \<times> 'w::len word) list \<Rightarrow> wstring option list \<Rightarrow> error + wstring option list" where
  "rebuild_IdToWord [] idToWord = Inr idToWord"
| "rebuild_IdToWord (it # rest) idToWord =
     (if \<not> (unat (snd it) < length idToWord) then Inl OutOfRange
      else rebuild_IdToWord rest (idToWord[unat (snd it) := Some (fst it)]))"

text \<open>\<^verbatim>\<open>bool TLangModel::Load(const std::string&)\<close>\<close>

definition Load ::
  "'w::len word extern \<Rightarrow> ('w word, 'c, 't::len word) model_file
    \<Rightarrow> ('w word, 'c, 't word) TLangModel
    \<Rightarrow> error + (bool \<times> ('w word, 'c, 't word) TLangModel)" where
  "Load env f m =
     (if f_magic f \<noteq> MAGIC_BYTE env then Inr (False, m)
      else if f_version f \<noteq> VERSION env then Inr (False, m)
      else
        let m1 = LoadPayload (f_payload f) m
        in if f_trailer f \<noteq> MAGIC_BYTE env then Inr (False, Clear env m1)
           else
             let m2 = m1\<lparr>IdToWord := []\<rparr>;
                 m3 = m2\<lparr>IdToWord := resize (IdToWord m2) (length (WordToId m2) + 1) None\<rparr>
             in (case rebuild_IdToWord (WordToId m3) (IdToWord m3) of
                   Inl e \<Rightarrow> Inl e
                 | Inr v \<Rightarrow> Inr (True, m3\<lparr>IdToWord := v\<rparr>)))"

declare Train_bigrams.simps [simp del] Train_trigrams.simps [simp del] Score_loop.simps [simp del]

section \<open>The specification's vocabulary, for comparison with the code\<close>

text \<open>The adjacent ordered pairs and triples of a sentence.\<close>

definition adjacent_pairs :: "'a list \<Rightarrow> ('a \<times> 'a) list" where
  "adjacent_pairs ws = zip ws (tl ws)"

definition adjacent_triples :: "'a list \<Rightarrow> ('a \<times> 'a \<times> 'a) list" where
  "adjacent_triples ws = zip ws (zip (tl ws) (tl (tl ws)))"

text \<open>
  The lookup protocol of the specification, steps 3 and 4: the bucket of a serialised
  key is in range, and the count that the fingerprint comparison yields there.
\<close>

definition bucket_in_range :: "('w, 'c, 't) TLangModel \<Rightarrow> bytes \<Rightarrow> bool" where
  "bucket_in_range m key =
     (unat (Hash (PerfectHash m) key) < BucketsNumber (PerfectHash m) \<and>
      unat (Hash (PerfectHash m) key) < length (Buckets m))"

definition fingerprint_count ::
  "'w extern \<Rightarrow> ('w, 'c::len word, 't) TLangModel \<Rightarrow> bytes \<Rightarrow> 'c word" where
  "fingerprint_count env m key =
     (let bucket = unat (Hash (PerfectHash m) key)
      in if fst (Buckets m ! bucket) = CityHash32 env key then snd (Buckets m ! bucket) else 0)"

text \<open>
  The estimators of the specification, in the arithmetic of doubles:
  \<open>P1 = (c1 + K) / (TotalWords + V1)\<close>; \<open>P2 = (c2 + K) / (c1 + TotalWords)\<close> with
  \<open>c2\<close> forced to zero when \<open>c2 > c1\<close>; \<open>P3 = (c3 + K) / (c2 + TotalWords)\<close> with
  \<open>c3\<close> forced to zero when \<open>c3 > c2\<close>.
\<close>

definition P1_formula :: "double \<Rightarrow> 't::len word \<Rightarrow> nat \<Rightarrow> 'c::len word \<Rightarrow> double" where
  "P1_formula k tw v1 c1 =
     ddiv (dadd (to_double c1) k) (dadd (to_double tw) (Finite (real v1)))"

definition P2_formula :: "double \<Rightarrow> 't::len word \<Rightarrow> 'c::len word \<Rightarrow> 'c word \<Rightarrow> double" where
  "P2_formula k tw c1 c2 =
     (let c2' = (if unat c1 < unat c2 then 0 else c2)
      in ddiv (dadd (to_double c2') k) (dadd (to_double c1) (to_double tw)))"

definition P3_formula :: "double \<Rightarrow> 't::len word \<Rightarrow> 'c::len word \<Rightarrow> 'c word \<Rightarrow> double" where
  "P3_formula k tw c2 c3 =
     (let c3' = (if unat c2 < unat c3 then 0 else c3)
      in ddiv (dadd (to_double c3') k) (dadd (to_double c2) (to_double tw)))"

text \<open>
  The counts of the lookup protocol as total functions (zero for a key with an
  \<open>UnknownWordId\<close>, else the count that the fingerprint comparison yields), the three
  estimators on these counts, and the value that \<^verbatim>\<open>Score\<close> accumulates over a list of
  positions when no lookup fails.
\<close>

definition count1 :: "'w extern \<Rightarrow> ('w, 'c::len word, 't) TLangModel \<Rightarrow> 'w \<Rightarrow> 'c word" where
  "count1 env m a =
     (if a = UnknownWordId env then 0 else fingerprint_count env m (DumpKey1 env a))"

definition count2 :: "'w extern \<Rightarrow> ('w, 'c::len word, 't) TLangModel \<Rightarrow> 'w \<Rightarrow> 'w \<Rightarrow> 'c word" where
  "count2 env m a b =
     (if a = UnknownWordId env \<or> b = UnknownWordId env then 0
      else fingerprint_count env m (DumpKey2 env (a, b)))"

definition count3 ::
  "'w extern \<Rightarrow> ('w, 'c::len word, 't) TLangModel \<Rightarrow> 'w \<Rightarrow> 'w \<Rightarrow> 'w \<Rightarrow> 'c word" where
  "count3 env m a b c =
     (if a = UnknownWordId env \<or> b = UnknownWordId env \<or> c = UnknownWordId env then 0
      else fingerprint_count env m (DumpKey3 env (a, b, c)))"

definition P1 :: "'w extern \<Rightarrow> ('w, 'c::len word, 't::len word) TLangModel \<Rightarrow> 'w \<Rightarrow> double" where
  "P1 env m a = P1_formula (K m) (TotalWords m) (length (Grams1 m)) (count1 env m a)"

definition P2 ::
  "'w extern \<Rightarrow> ('w, 'c::len word, 't::len word) TLangModel \<Rightarrow> 'w \<Rightarrow> 'w \<Rightarrow> double" where
  "P2 env m a b = P2_formula (K m) (TotalWords m) (count1 env m a) (count2 env m a b)"

definition P3 ::
  "'w extern \<Rightarrow> ('w, 'c::len word, 't::len word) TLangModel \<Rightarrow> 'w \<Rightarrow> 'w \<Rightarrow> 'w \<Rightarrow> double" where
  "P3 env m a b c = P3_formula (K m) (TotalWords m) (count2 env m a b) (count3 env m a b c)"

fun log_probability ::
  "'w extern \<Rightarrow> ('w, 'c::len word, 't::len word) TLangModel \<Rightarrow> 'w list \<Rightarrow> nat list \<Rightarrow> double
    \<Rightarrow> double" where
  "log_probability env m w [] result = result"
| "log_probability env m w (i # positions) result =
     log_probability env m w positions
       (dadd (dadd (dadd result (dlog (P1 env m (w ! i))))
                   (dlog (P2 env m (w ! i) (w ! (i + 1)))))
             (dlog (P3 env m (w ! i) (w ! (i + 1)) (w ! (i + 2)))))"

text \<open>
  The accumulation of \<^verbatim>\<open>Score\<close> over a list of positions: the loop body at each
  position in turn, stopping at the first failure.
\<close>

fun Score_sum ::
  "'w extern \<Rightarrow> ('w, 'c::len word, 't::len word) TLangModel \<Rightarrow> 'w list \<Rightarrow> nat list \<Rightarrow> double
    \<Rightarrow> error + double" where
  "Score_sum env m sentence [] result = Inr result"
| "Score_sum env m sentence (i # positions) result =
     (case Score_step env m sentence i result of
        Inl e \<Rightarrow> Inl e
      | Inr r \<Rightarrow> Score_sum env m sentence positions r)"

text \<open>
  The sum as the specification words it, for a sentence of \<open>len\<close> words: over the
  positions from \<open>0\<close> to \<open>len - 2\<close> inclusive of the sentence with its two sentinels.
\<close>

definition Score_claimed ::
  "'w extern \<Rightarrow> ('w, 'c::len word, 't::len word) TLangModel \<Rightarrow> TWord list \<Rightarrow> error + double" where
  "Score_claimed env m words =
     Score_sum env m
       (map (GetWordIdNoCreate env m) words @ [UnknownWordId env, UnknownWordId env])
       [0..<length words - 1] (Finite 0)"

text \<open>
  The real number that an estimator returned, and the summand of the score at a
  position \<open>i\<close> of a sentence \<open>w\<close>: \<open>ln P1(w[i]) + ln P2(w[i], w[i+1]) +
  ln P3(w[i], w[i+1], w[i+2])\<close>.
\<close>

definition prob_value :: "error + double \<Rightarrow> real" where
  "prob_value r = (case r of Inr (Finite p) \<Rightarrow> p | _ \<Rightarrow> 0)"

definition log_terms ::
  "'w extern \<Rightarrow> ('w, 'c::len word, 't::len word) TLangModel \<Rightarrow> 'w list \<Rightarrow> nat \<Rightarrow> real" where
  "log_terms env m w i =
     ln (prob_value (GetGram1Prob env m (w ! i))) +
     ln (prob_value (GetGram2Prob env m (w ! i) (w ! (i + 1)))) +
     ln (prob_value (GetGram3Prob env m (w ! i) (w ! (i + 1)) (w ! (i + 2))))"

section \<open>A model before training, and a concrete instance\<close>

text \<open>
  Modelled from the spec: the member initialisers of \<^verbatim>\<open>TLangModel\<close> are in the missing
  header. A model before training is the known-empty state: every container empty, the
  counters zero, \<open>K\<close> the default (the values that \<^verbatim>\<open>Clear\<close> assigns). The state of
  a default-constructed perfect hash is the parameter \<open>ph0\<close>.
\<close>

definition New_model ::
  "'w::len word extern \<Rightarrow> TPerfectHash \<Rightarrow> ('w word, 'c, 't::len word) TLangModel" where
  "New_model env ph0 =
     \<lparr>K = DEFAULT_K env, WordToId = [], IdToWord = [], LastWordID = 0, TotalWords = 0,
      Grams1 = [], Grams2 = [], Grams3 = [], Tokenizer = {}, Buckets = [], PerfectHash = ph0\<rparr>"

text \<open>
  An instance of the parameters, to run the definitions on: 32-bit ids and counts, a
  64-bit total, a key serialisation tagged with the order of the key, a polynomial
  fingerprint, a perfect hash that numbers its keys in order (and sends every other
  key to bucket 0), and a tokenizer that ends a sentence at a full stop and a word at
  any character outside the alphabet.
\<close>

definition ex_dump1 :: "32 word \<Rightarrow> bytes" where
  "ex_dump1 a = [1, ucast a]"

definition ex_dump2 :: "32 word \<times> 32 word \<Rightarrow> bytes" where
  "ex_dump2 k = [2, ucast (fst k), ucast (snd k)]"

definition ex_dump3 :: "32 word \<times> 32 word \<times> 32 word \<Rightarrow> bytes" where
  "ex_dump3 k = [3, ucast (fst k), ucast (fst (snd k)), ucast (snd (snd k))]"

definition ex_city :: "bytes \<Rightarrow> 32 word" where
  "ex_city s = foldl (\<lambda>h b. 31 * h + ucast b) 7 s"

fun index_of :: "'a list \<Rightarrow> 'a \<Rightarrow> nat" where
  "index_of [] x = 0"
| "index_of (y # ys) x = (if x = y then 0 else Suc (index_of ys x))"

definition ex_ph_init :: "bytes list \<Rightarrow> TPerfectHash" where
  "ex_ph_init keys =
     \<lparr>Hash = (\<lambda>s. if s \<in> set keys then of_nat (index_of keys s) else 0),
      BucketsNumber = length keys\<rparr>"

fun ex_words :: "wchar_t set \<Rightarrow> wstring \<Rightarrow> wstring \<Rightarrow> wstring list" where
  "ex_words a [] cur = (if cur = [] then [] else [cur])"
| "ex_words a (c # cs) cur =
     (if c \<in> a then ex_words a cs (cur @ [c])
      else (if cur = [] then [] else [cur]) @ ex_words a cs [])"

fun ex_split :: "wstring \<Rightarrow> wstring \<Rightarrow> wstring list" where
  "ex_split [] cur = [cur]"
| "ex_split (c # cs) cur = (if c = 46 then cur # ex_split cs [] else ex_split cs (cur @ [c]))"

definition ex_view :: "wstring \<Rightarrow> TWord" where
  "ex_view w = \<lparr>Ptr = Some w, Len = length w\<rparr>"

definition ex_process :: "wchar_t set \<Rightarrow> wstring \<Rightarrow> TWord list list" where
  "ex_process a text =
     filter (\<lambda>s. s \<noteq> []) (map (\<lambda>s. map ex_view (ex_words a s [])) (ex_split text []))"

definition ex_env :: "32 word extern" where
  "ex_env =
     \<lparr>UnknownWordId = 0xFFFFFFFF, MAGIC_BYTE = 0x1122334455667788, VERSION = 3,
      DEFAULT_K = Finite 1, CityHash32 = ex_city,
      DumpKey1 = ex_dump1, DumpKey2 = ex_dump2, DumpKey3 = ex_dump3,
      PerfectHash_Init = ex_ph_init, Tokenizer_Process = ex_process\<rparr>"

definition ex_new :: "(32 word, 32 word, 64 word) TLangModel" where
  "ex_new = New_model ex_env (ex_ph_init [])"

text \<open>The words \<open>a\<close>, \<open>b\<close> and \<open>c\<close>, and a word of 10001 characters.\<close>

definition ex_a :: TWord where
  "ex_a = ex_view [97]"

definition ex_b :: TWord where
  "ex_b = ex_view [98]"

definition ex_c :: TWord where
  "ex_c = ex_view [99]"

definition ex_long :: TWord where
  "ex_long = \<lparr>Ptr = Some (replicate 10001 97), Len = 10001\<rparr>"

text \<open>The model that training on the corpus \<open>a b\<close> builds (lemma \<open>ex_train\<close>).\<close>

definition ex_trained :: "(32 word, 32 word, 64 word) TLangModel" where
  "ex_trained =
     \<lparr>K = Finite 1, WordToId = [([97], 0), ([98], 1)], IdToWord = [Some [97], Some [98]],
      LastWordID = 2, TotalWords = 2, Grams1 = [(0, 1), (1, 1)], Grams2 = [((0, 1), 1)],
      Grams3 = [], Tokenizer = {97, 98}, Buckets = [(6758, 1), (6759, 1), (210460, 1)],
      PerfectHash = ex_ph_init [[1, 0], [1, 1], [2, 0, 1]]\<rparr>"

text \<open>
  The model that loading the saved \<open>ex_trained\<close> into \<open>ex_new\<close> gives (lemma
  \<open>ex_load\<close>); the same file with a wrong trailing magic; and the model that loading
  this file into \<open>ex_new\<close> leaves behind (lemma \<open>ex_bad_load\<close>).
\<close>

definition ex_loaded :: "(32 word, 32 word, 64 word) TLangModel" where
  "ex_loaded =
     \<lparr>K = Finite 1, WordToId = [([97], 0), ([98], 1)],
      IdToWord = [Some [97], Some [98], None],
      LastWordID = 0, TotalWords = 2, Grams1 = [], Grams2 = [], Grams3 = [], Tokenizer = {},
      Buckets = [(6758, 1), (6759, 1), (210460, 1)],
      PerfectHash = ex_ph_init [[1, 0], [1, 1], [2, 0, 1]]\<rparr>"

definition ex_bad_file :: "(32 word, 32 word, 64 word) model_file" where
  "ex_bad_file = (Save ex_env ex_trained)\<lparr>f_trailer := 0\<rparr>"

definition ex_after_bad_load :: "(32 word, 32 word, 64 word) TLangModel" where
  "ex_after_bad_load =
     \<lparr>K = Finite 1, WordToId = [], IdToWord = [],
      LastWordID = 0, TotalWords = 0, Grams1 = [], Grams2 = [], Grams3 = [], Tokenizer = {},
      Buckets = [(6758, 1), (6759, 1), (210460, 1)],
      PerfectHash = ex_ph_init [[1, 0], [1, 1], [2, 0, 1]]\<rparr>"

section \<open>The concrete instance, evaluated\<close>

lemma ex_ph_init_sel:
  "BucketsNumber (ex_ph_init keys) = length keys"
  "Hash (ex_ph_init keys) s = (if s \<in> set keys then of_nat (index_of keys s) else 0)"
  by (simp_all add: ex_ph_init_def)

lemma ex_process_ab: "ex_process {97, 98} [97, 32, 98] = [[ex_view [97], ex_view [98]]]"
  by (simp add: ex_process_def)

lemma ex_train: "Train ex_env ex_new (Some {97, 98}) [97, 32, 98] = Inr (True, ex_trained)"
  by (simp add: Train_def ex_env_def ex_new_def New_model_def ex_process_ab ConvertToIds_def
      GetWordId_def ex_view_def wstring_of_def Train_sentence_def ex_ph_init_sel resize_def
      ex_dump1_def ex_dump2_def ex_dump3_def ex_city_def ex_trained_def Let_def
      Train_bigrams.simps Train_trigrams.simps)

section \<open>Vocabulary: interning and lookup\<close>



text \<open>
  Claim C9. \<open>GetWordId\<close> asserts that the word is non-empty (a non-null pointer and a
  non-zero length) and that its length is below 10000. A word longer than 10000
  characters fails the assertion; a non-empty word shorter than the bound passes both
  assertions and the call returns an id.
\<close>

theorem intern_precondition:
  "(10000 < Len word \<longrightarrow> GetWordId m word = Inl AssertionFailed) \<and>
   (Ptr word \<noteq> None \<and> 0 < Len word \<and> Len word < 10000 \<longrightarrow>
      (\<exists>wid m'. GetWordId m word = Inr (wid, m')))"
  by (auto simp: GetWordId_def Let_def split: option.splits)

theorem intern_precondition_witness:
  "10000 < Len ex_long \<and> GetWordId ex_new ex_long = Inl AssertionFailed \<and>
   Ptr ex_a \<noteq> None \<and> 0 < Len ex_a \<and> Len ex_a < 10000 \<and>
   (\<exists>wid m'. GetWordId ex_new ex_a = Inr (wid, m'))"
proof -
  have long: "10000 < Len ex_long"
    by (simp add: ex_long_def)
  have ok: "Ptr ex_a \<noteq> None \<and> 0 < Len ex_a \<and> Len ex_a < 10000"
    by (simp add: ex_a_def ex_view_def)
  from intern_precondition [of ex_long ex_new] intern_precondition [of ex_a ex_new] long ok
  show ?thesis by blast
qed

section \<open>Training: what the accumulator counts\<close>

lemma count_of_incr:
  "count_of (incr g k) k' = (if k' = k then count_of g k + 1 else count_of g k')"
  by (induction g) (auto simp: count_of_def)

lemma keys_incr: "fst ` set (incr g k) = insert k (fst ` set g)"
proof (induction g)
  case Nil
  show ?case by simp
next
  case (Cons x g)
  obtain k' c where x: "x = (k', c)" by (cases x)
  show ?case
  proof (cases "k' = k")
    case True
    then show ?thesis by (simp add: x)
  next
    case False
    with Cons show ?thesis by (simp add: x insert_commute)
  qed
qed

lemma distinct_incr: "distinct (map fst g) \<Longrightarrow> distinct (map fst (incr g k))"
proof (induction g)
  case Nil
  then show ?case by simp
next
  case (Cons x g)
  have "fst ` set (incr g k) = insert k (fst ` set g)" by (rule keys_incr)
  with Cons show ?case by (cases x) auto
qed

lemma Train_unigrams_frame:
  "Grams2 (Train_unigrams m ws) = Grams2 m \<and> Grams3 (Train_unigrams m ws) = Grams3 m"
  by (induction ws arbitrary: m) auto

lemma Train_unigrams_total:
  "TotalWords (Train_unigrams m ws) = TotalWords m + of_nat (length ws)"
  by (induction ws arbitrary: m) auto

lemma Train_unigrams_count:
  "count_of (Grams1 (Train_unigrams m ws)) a = count_of (Grams1 m) a + of_nat (count_list ws a)"
  by (induction ws arbitrary: m) (auto simp: count_of_incr)

lemma Train_unigrams_keys:
  "fst ` set (Grams1 (Train_unigrams m ws)) = fst ` set (Grams1 m) \<union> set ws"
  by (induction ws arbitrary: m) (simp_all add: keys_incr)

lemma pairs_drop:
  "j + 1 < length ws \<Longrightarrow>
   drop j (adjacent_pairs ws) = (ws ! j, ws ! (j + 1)) # drop (j + 1) (adjacent_pairs ws)"
  unfolding adjacent_pairs_def
  by (subst Cons_nth_drop_Suc [symmetric]) (auto simp: nth_tl)

lemma triples_drop:
  "j + 2 < length ws \<Longrightarrow>
   drop j (adjacent_triples ws) =
     (ws ! j, ws ! (j + 1), ws ! (j + 2)) # drop (j + 1) (adjacent_triples ws)"
  unfolding adjacent_triples_def
  by (subst Cons_nth_drop_Suc [symmetric]) (auto simp: nth_tl)

lemma pairs_drop_end: "\<not> j + 1 < length ws \<Longrightarrow> drop j (adjacent_pairs ws) = []"
  by (simp add: adjacent_pairs_def)

lemma triples_drop_end: "\<not> j + 2 < length ws \<Longrightarrow> drop j (adjacent_triples ws) = []"
  by (simp add: adjacent_triples_def)

lemma Train_bigrams_frame:
  "Grams1 (Train_bigrams m ws j) = Grams1 m \<and> Grams3 (Train_bigrams m ws j) = Grams3 m \<and>
   TotalWords (Train_bigrams m ws j) = TotalWords m"
proof (induction m ws j rule: Train_bigrams.induct)
  case (1 m words j)
  show ?case
  proof (cases "int j < int (length words) - 1")
    case True
    with 1 show ?thesis by (subst (1 2 3) Train_bigrams.simps) simp
  next
    case False
    then show ?thesis by (subst (1 2 3) Train_bigrams.simps) simp
  qed
qed

lemma Train_bigrams_count:
  "count_of (Grams2 (Train_bigrams m ws j)) p =
     count_of (Grams2 m) p + of_nat (count_list (drop j (adjacent_pairs ws)) p)"
proof (induction m ws j rule: Train_bigrams.induct)
  case (1 m words j)
  show ?case
  proof (cases "int j < int (length words) - 1")
    case True
    then have lt: "j + 1 < length words" by simp
    from True 1 show ?thesis
      by (subst Train_bigrams.simps) (simp add: pairs_drop [OF lt] count_of_incr)
  next
    case False
    then have "\<not> j + 1 < length words" by simp
    with False show ?thesis
      by (subst Train_bigrams.simps) (simp add: pairs_drop_end)
  qed
qed

lemma Train_bigrams_keys:
  "fst ` set (Grams2 (Train_bigrams m ws j)) =
     fst ` set (Grams2 m) \<union> set (drop j (adjacent_pairs ws))"
proof (induction m ws j rule: Train_bigrams.induct)
  case (1 m words j)
  show ?case
  proof (cases "int j < int (length words) - 1")
    case True
    then have lt: "j + 1 < length words" by simp
    from True 1 show ?thesis
      by (subst Train_bigrams.simps) (simp add: pairs_drop [OF lt] keys_incr)
  next
    case False
    then have "\<not> j + 1 < length words" by simp
    with False show ?thesis
      by (subst Train_bigrams.simps) (simp add: pairs_drop_end)
  qed
qed


lemma Train_trigrams_frame:
  "Grams1 (Train_trigrams m ws j) = Grams1 m \<and> Grams2 (Train_trigrams m ws j) = Grams2 m \<and>
   TotalWords (Train_trigrams m ws j) = TotalWords m"
proof (induction m ws j rule: Train_trigrams.induct)
  case (1 m words j)
  show ?case
  proof (cases "int j < int (length words) - 2")
    case True
    with 1 show ?thesis by (subst (1 2 3) Train_trigrams.simps) simp
  next
    case False
    then show ?thesis by (subst (1 2 3) Train_trigrams.simps) simp
  qed
qed

lemma Train_trigrams_count:
  "count_of (Grams3 (Train_trigrams m ws j)) t =
     count_of (Grams3 m) t + of_nat (count_list (drop j (adjacent_triples ws)) t)"
proof (induction m ws j rule: Train_trigrams.induct)
  case (1 m words j)
  show ?case
  proof (cases "int j < int (length words) - 2")
    case True
    then have lt: "j + 2 < length words" by simp
    from True 1 show ?thesis
      by (subst Train_trigrams.simps) (simp add: triples_drop [OF lt] count_of_incr)
  next
    case False
    then have "\<not> j + 2 < length words" by simp
    with False show ?thesis
      by (subst Train_trigrams.simps) (simp add: triples_drop_end)
  qed
qed

lemma Train_trigrams_keys:
  "fst ` set (Grams3 (Train_trigrams m ws j)) =
     fst ` set (Grams3 m) \<union> set (drop j (adjacent_triples ws))"
proof (induction m ws j rule: Train_trigrams.induct)
  case (1 m words j)
  show ?case
  proof (cases "int j < int (length words) - 2")
    case True
    then have lt: "j + 2 < length words" by simp
    from True 1 show ?thesis
      by (subst Train_trigrams.simps) (simp add: triples_drop [OF lt] keys_incr)
  next
    case False
    then have "\<not> j + 2 < length words" by simp
    with False show ?thesis
      by (subst Train_trigrams.simps) (simp add: triples_drop_end)
  qed
qed

lemma Train_sentence_counts:
  "count_of (Grams1 (Train_sentence m ws)) a =
     count_of (Grams1 m) a + of_nat (count_list ws a)"
  "count_of (Grams2 (Train_sentence m ws)) p =
     count_of (Grams2 m) p + of_nat (count_list (adjacent_pairs ws) p)"
  "count_of (Grams3 (Train_sentence m ws)) t =
     count_of (Grams3 m) t + of_nat (count_list (adjacent_triples ws) t)"
  "TotalWords (Train_sentence m ws) = TotalWords m + of_nat (length ws)"
  by (simp_all add: Train_sentence_def Train_trigrams_frame Train_trigrams_count
      Train_bigrams_frame Train_bigrams_count Train_unigrams_frame Train_unigrams_count
      Train_unigrams_total)

lemma Train_sentence_keys:
  "fst ` set (Grams2 (Train_sentence m ws)) = fst ` set (Grams2 m) \<union> set (adjacent_pairs ws)"
  "fst ` set (Grams3 (Train_sentence m ws)) = fst ` set (Grams3 m) \<union> set (adjacent_triples ws)"
  by (simp_all add: Train_sentence_def Train_trigrams_frame Train_trigrams_keys
      Train_bigrams_frame Train_bigrams_keys Train_unigrams_frame)

lemma Train_loop_counts:
  "count_of (Grams1 (Train_loop m ss)) a =
     count_of (Grams1 m) a + of_nat (\<Sum>ws\<leftarrow>ss. count_list ws a)"
  "count_of (Grams2 (Train_loop m ss)) p =
     count_of (Grams2 m) p + of_nat (\<Sum>ws\<leftarrow>ss. count_list (adjacent_pairs ws) p)"
  "count_of (Grams3 (Train_loop m ss)) t =
     count_of (Grams3 m) t + of_nat (\<Sum>ws\<leftarrow>ss. count_list (adjacent_triples ws) t)"
  "TotalWords (Train_loop m ss) = TotalWords m + of_nat (\<Sum>ws\<leftarrow>ss. length ws)"
  by (induction ss arbitrary: m) (simp_all add: Train_sentence_counts)

lemma Train_loop_keys:
  "fst ` set (Grams2 (Train_loop m ss)) =
     fst ` set (Grams2 m) \<union> (\<Union>ws\<in>set ss. set (adjacent_pairs ws))"
  "fst ` set (Grams3 (Train_loop m ss)) =
     fst ` set (Grams3 m) \<union> (\<Union>ws\<in>set ss. set (adjacent_triples ws))"
  by (induction ss arbitrary: m) (simp_all add: Train_sentence_keys Un_assoc)

text \<open>
  Claim C7. Processing one sentence adds to the count of a unigram the number of its
  occurrences in the sentence, to the count of a bigram the number of times it occurs as
  an adjacent ordered pair of the sentence, to the count of a trigram the number of
  times it occurs as an adjacent ordered triple, and to \<open>TotalWords\<close> the number of
  words (all counters in their machine arithmetic). Over a whole list of sentences the
  bigram and trigram counts grow by the sum, over the sentences, of the occurrences
  within each sentence, and the keys present afterwards are the earlier keys and the
  adjacent pairs and triples of the single sentences: no key combines words of two
  sentences.
\<close>

theorem accumulator_counts:
  "count_of (Grams1 (Train_sentence m ws)) a =
     count_of (Grams1 m) a + of_nat (count_list ws a) \<and>
   count_of (Grams2 (Train_sentence m ws)) p =
     count_of (Grams2 m) p + of_nat (count_list (adjacent_pairs ws) p) \<and>
   count_of (Grams3 (Train_sentence m ws)) t =
     count_of (Grams3 m) t + of_nat (count_list (adjacent_triples ws) t) \<and>
   TotalWords (Train_sentence m ws) = TotalWords m + of_nat (length ws) \<and>
   count_of (Grams2 (Train_loop m ss)) p =
     count_of (Grams2 m) p + of_nat (\<Sum>ws\<leftarrow>ss. count_list (adjacent_pairs ws) p) \<and>
   count_of (Grams3 (Train_loop m ss)) t =
     count_of (Grams3 m) t + of_nat (\<Sum>ws\<leftarrow>ss. count_list (adjacent_triples ws) t) \<and>
   fst ` set (Grams2 (Train_loop m ss)) =
     fst ` set (Grams2 m) \<union> (\<Union>ws\<in>set ss. set (adjacent_pairs ws)) \<and>
   fst ` set (Grams3 (Train_loop m ss)) =
     fst ` set (Grams3 m) \<union> (\<Union>ws\<in>set ss. set (adjacent_triples ws))"
  by (simp only: Train_sentence_counts Train_loop_counts Train_loop_keys simp_thms)

section \<open>The counter store: lookup\<close>

lemma GetGramHashCount_in_range:
  "unat (Hash ph (dump key)) < BucketsNumber ph \<Longrightarrow> unat (Hash ph (dump key)) < length buckets \<Longrightarrow>
   GetGramHashCount env dump key ph buckets =
     Inr (if fst (buckets ! unat (Hash ph (dump key))) = CityHash32 env (dump key)
          then snd (buckets ! unat (Hash ph (dump key))) else 0)"
  by (simp add: GetGramHashCount_def Let_def)

text \<open>
  Claim C3. A lookup of any order returns zero when one of its word ids is
  \<open>UnknownWordId\<close>, whatever the store holds (the store is not read: the result does
  not depend on the model). Otherwise the key is serialised and hashed to a bucket, and,
  the bucket being in range, the result is the count stored there when the stored
  fingerprint equals the fingerprint of the key, and zero when it differs.
\<close>

theorem lookup_protocol:
  "(a = UnknownWordId env \<longrightarrow> GetGram1HashCount env m a = Inr 0) \<and>
   (a = UnknownWordId env \<or> b = UnknownWordId env \<longrightarrow> GetGram2HashCount env m a b = Inr 0) \<and>
   (a = UnknownWordId env \<or> b = UnknownWordId env \<or> c = UnknownWordId env \<longrightarrow>
      GetGram3HashCount env m a b c = Inr 0) \<and>
   (a \<noteq> UnknownWordId env \<and> bucket_in_range m (DumpKey1 env a) \<longrightarrow>
      GetGram1HashCount env m a = Inr (fingerprint_count env m (DumpKey1 env a))) \<and>
   (a \<noteq> UnknownWordId env \<and> b \<noteq> UnknownWordId env \<and>
    bucket_in_range m (DumpKey2 env (a, b)) \<longrightarrow>
      GetGram2HashCount env m a b = Inr (fingerprint_count env m (DumpKey2 env (a, b)))) \<and>
   (a \<noteq> UnknownWordId env \<and> b \<noteq> UnknownWordId env \<and> c \<noteq> UnknownWordId env \<and>
    bucket_in_range m (DumpKey3 env (a, b, c)) \<longrightarrow>
      GetGram3HashCount env m a b c = Inr (fingerprint_count env m (DumpKey3 env (a, b, c)))) \<and>
   (CityHash32 env key \<noteq> fst (Buckets m ! unat (Hash (PerfectHash m) key)) \<longrightarrow>
      fingerprint_count env m key = 0) \<and>
   (CityHash32 env key = fst (Buckets m ! unat (Hash (PerfectHash m) key)) \<longrightarrow>
      fingerprint_count env m key = snd (Buckets m ! unat (Hash (PerfectHash m) key)))"
  by (auto simp: GetGram1HashCount_def GetGram2HashCount_def GetGram3HashCount_def
      GetGramHashCount_in_range bucket_in_range_def fingerprint_count_def Let_def)

section \<open>The estimators\<close>

text \<open>
  With \<open>c1\<close>, \<open>c2\<close>, \<open>c3\<close> the counts that the lookups return, the three
  estimators compute \<open>P1_formula\<close>, \<open>P2_formula\<close> and \<open>P3_formula\<close>; the
  vocabulary size in \<open>P1\<close> is the number of entries of \<open>Grams1\<close>.
\<close>

lemma dgt_to_double: "dgt (to_double a) (to_double b) = (unat b < unat a)"
  by (simp only: to_double_def dgt.simps of_nat_less_iff)

lemma to_double_0: "to_double 0 = Finite 0"
  by (simp add: to_double_def)

lemma prob1_formula:
  "GetGram1HashCount env m a = Inr c1 \<Longrightarrow>
   GetGram1Prob env m a = Inr (P1_formula (K m) (TotalWords m) (length (Grams1 m)) c1)"
  by (simp add: GetGram1Prob_def P1_formula_def Let_def)

lemma prob2_formula:
  "GetGram1HashCount env m a = Inr c1 \<Longrightarrow> GetGram2HashCount env m a b = Inr c2 \<Longrightarrow>
   GetGram2Prob env m a b = Inr (P2_formula (K m) (TotalWords m) c1 c2)"
  by (simp add: GetGram2Prob_def P2_formula_def Let_def dgt_to_double to_double_0)

lemma prob3_formula:
  "GetGram2HashCount env m a b = Inr c2 \<Longrightarrow> GetGram3HashCount env m a b c = Inr c3 \<Longrightarrow>
   GetGram3Prob env m a b c = Inr (P3_formula (K m) (TotalWords m) c2 c3)"
  by (simp add: GetGram3Prob_def P3_formula_def Let_def dgt_to_double to_double_0)

section \<open>Scoring\<close>

lemma push_words_eq: "push_words acc s = acc @ s"
  by (induction s arbitrary: acc) auto

lemma push_sentences_eq: "push_sentences acc ss = acc @ concat ss"
  by (induction ss arbitrary: acc) (auto simp: push_words_eq)

lemma Score_ids_eq: "Score_ids env m words acc = acc @ map (GetWordIdNoCreate env m) words"
  by (induction words arbitrary: acc) auto

lemma Score_loop_sum:
  "Score_loop env m sentence i result =
     Score_sum env m sentence [i..<length sentence - 2] result"
proof (induction env m sentence i result rule: Score_loop.induct)
  case (1 env m sentence i result)
  show ?case
  proof (cases "i < length sentence - 2")
    case True
    then have upt: "[i..<length sentence - 2] = i # [i + 1..<length sentence - 2]"
      by (simp add: upt_conv_Cons)
    show ?thesis
    proof (cases "Score_step env m sentence i result")
      case (Inl e)
      with True upt show ?thesis by (subst Score_loop.simps) simp
    next
      case (Inr r)
      with True upt 1 [OF True Inr] show ?thesis by (subst Score_loop.simps) simp
    qed
  next
    case False
    then show ?thesis by (subst Score_loop.simps) simp
  qed
qed

lemma to_double_nonneg: "\<exists>x. to_double c = Finite x \<and> 0 \<le> x"
  by (simp only: to_double_def double.inject of_nat_0_le_iff simp_thms)

lemma to_double_pos: "c \<noteq> 0 \<Longrightarrow> \<exists>x. to_double c = Finite x \<and> 0 < x"
  by (simp only: to_double_def double.inject of_nat_0_less_iff unat_gt_0 simp_thms)

lemma count_total:
  assumes "\<forall>s. unat (Hash ph s) < BucketsNumber ph" and "length buckets = BucketsNumber ph"
  shows "\<exists>c. GetGramHashCount env dump key ph buckets = Inr c"
  using assms by (simp add: GetGramHashCount_def Let_def)

lemma counts_total:
  assumes "\<forall>s. unat (Hash (PerfectHash m) s) < BucketsNumber (PerfectHash m)"
    and "length (Buckets m) = BucketsNumber (PerfectHash m)"
  shows "\<exists>n. GetGram1HashCount env m a = Inr n"
    and "\<exists>n. GetGram2HashCount env m a b = Inr n"
    and "\<exists>n. GetGram3HashCount env m a b c = Inr n"
proof -
  show "\<exists>n. GetGram1HashCount env m a = Inr n"
    using count_total [OF assms, of env "DumpKey1 env" a]
    by (simp add: GetGram1HashCount_def)
  show "\<exists>n. GetGram2HashCount env m a b = Inr n"
    using count_total [OF assms, of env "DumpKey2 env" "(a, b)"]
    by (simp add: GetGram2HashCount_def)
  show "\<exists>n. GetGram3HashCount env m a b c = Inr n"
    using count_total [OF assms, of env "DumpKey3 env" "(a, b, c)"]
    by (simp add: GetGram3HashCount_def)
qed

lemma ddiv_pos:
  assumes "0 \<le> x" and "0 < k" and "0 < y"
  shows "\<exists>p. ddiv (dadd (Finite x) (Finite k)) (Finite y) = Finite p \<and> 0 < p"
  using assms by (simp add: add_nonneg_pos)

lemma P1_formula_pos:
  assumes "0 < k" and "tw \<noteq> 0"
  shows "\<exists>p. P1_formula (Finite k) tw v1 c1 = Finite p \<and> 0 < p"
proof -
  obtain t where t: "to_double tw = Finite t" "0 < t"
    using to_double_pos [OF assms(2)] by blast
  obtain x where x: "to_double c1 = Finite x" "0 \<le> x"
    using to_double_nonneg [of c1] by blast
  have "0 < t + real v1" using t(2) by simp
  from ddiv_pos [OF x(2) assms(1) this] show ?thesis
    by (simp add: P1_formula_def t x)
qed

lemma P2_formula_pos:
  assumes "0 < k" and "tw \<noteq> 0"
  shows "\<exists>p. P2_formula (Finite k) tw c1 c2 = Finite p \<and> 0 < p"
proof -
  obtain t where t: "to_double tw = Finite t" "0 < t"
    using to_double_pos [OF assms(2)] by blast
  obtain y where y: "to_double c1 = Finite y" "0 \<le> y"
    using to_double_nonneg [of c1] by blast
  obtain x where x: "to_double (if unat c1 < unat c2 then 0 else c2) = Finite x" "0 \<le> x"
    using to_double_nonneg [of "if unat c1 < unat c2 then 0 else c2"] by blast
  have "0 < y + t" using t(2) y(2) by simp
  from ddiv_pos [OF x(2) assms(1) this] show ?thesis
    by (simp add: P2_formula_def Let_def t x y)
qed

lemma P3_formula_pos:
  assumes "0 < k" and "tw \<noteq> 0"
  shows "\<exists>p. P3_formula (Finite k) tw c2 c3 = Finite p \<and> 0 < p"
  using P2_formula_pos [OF assms, of c2 c3] by (simp add: P2_formula_def P3_formula_def)


lemma probs_finite:
  assumes "\<forall>s. unat (Hash (PerfectHash m) s) < BucketsNumber (PerfectHash m)"
    and "length (Buckets m) = BucketsNumber (PerfectHash m)"
    and "K m = Finite k" and "0 < k" and "TotalWords m \<noteq> 0"
  shows "\<exists>p. GetGram1Prob env m a = Inr (Finite p) \<and> 0 < p"
    and "\<exists>p. GetGram2Prob env m a b = Inr (Finite p) \<and> 0 < p"
    and "\<exists>p. GetGram3Prob env m a b c = Inr (Finite p) \<and> 0 < p"
proof -
  obtain c1 where c1: "GetGram1HashCount env m a = Inr c1"
    using counts_total(1) [OF assms(1,2)] by blast
  obtain c2 where c2: "GetGram2HashCount env m a b = Inr c2"
    using counts_total(2) [OF assms(1,2)] by blast
  obtain c3 where c3: "GetGram3HashCount env m a b c = Inr c3"
    using counts_total(3) [OF assms(1,2)] by blast
  show "\<exists>p. GetGram1Prob env m a = Inr (Finite p) \<and> 0 < p"
    using P1_formula_pos [OF assms(4,5)] by (simp add: prob1_formula [OF c1] assms(3))
  show "\<exists>p. GetGram2Prob env m a b = Inr (Finite p) \<and> 0 < p"
    using P2_formula_pos [OF assms(4,5)] by (simp add: prob2_formula [OF c1 c2] assms(3))
  show "\<exists>p. GetGram3Prob env m a b c = Inr (Finite p) \<and> 0 < p"
    using P3_formula_pos [OF assms(4,5)] by (simp add: prob3_formula [OF c2 c3] assms(3))
qed

lemma Score_nonempty:
  "words \<noteq> [] \<Longrightarrow>
   Score env m words =
     Score_sum env m
       (map (GetWordIdNoCreate env m) words @ [UnknownWordId env, UnknownWordId env])
       [0..<length words] (Finite 0)"
  by (simp add: Score_def Score_ids_eq Score_loop_sum)

lemma Score_step_built:
  assumes "\<forall>s. unat (Hash (PerfectHash m) s) < BucketsNumber (PerfectHash m)"
    and "length (Buckets m) = BucketsNumber (PerfectHash m)"
    and "K m = Finite k" and "0 < k" and "TotalWords m \<noteq> 0"
  shows "Score_step env m sentence i (Finite r) = Inr (Finite (r + log_terms env m sentence i))"
proof -
  obtain p1 where p1: "GetGram1Prob env m (sentence ! i) = Inr (Finite p1)" "0 < p1"
    using probs_finite(1) [OF assms] by blast
  obtain p2 where p2:
    "GetGram2Prob env m (sentence ! i) (sentence ! (i + 1)) = Inr (Finite p2)" "0 < p2"
    using probs_finite(2) [OF assms] by blast
  obtain p3 where p3:
    "GetGram3Prob env m (sentence ! i) (sentence ! (i + 1)) (sentence ! (i + 2)) =
       Inr (Finite p3)" "0 < p3"
    using probs_finite(3) [OF assms] by blast
  show ?thesis
    unfolding Score_step_def log_terms_def p1(1) p2(1) p3(1) using p1(2) p2(2) p3(2)
    by (simp add: prob_value_def)
qed

lemma Score_sum_built:
  assumes "\<forall>s. unat (Hash (PerfectHash m) s) < BucketsNumber (PerfectHash m)"
    and "length (Buckets m) = BucketsNumber (PerfectHash m)"
    and "K m = Finite k" and "0 < k" and "TotalWords m \<noteq> 0"
  shows "Score_sum env m sentence positions (Finite r) =
           Inr (Finite (r + (\<Sum>i\<leftarrow>positions. log_terms env m sentence i)))"
proof (induction positions arbitrary: r)
  case Nil
  show ?case by simp
next
  case (Cons i positions)
  show ?case
    by (simp add: Score_step_built [OF assms] Cons add.assoc)
qed

lemma Score_built:
  assumes "\<forall>s. unat (Hash (PerfectHash m) s) < BucketsNumber (PerfectHash m)"
    and "length (Buckets m) = BucketsNumber (PerfectHash m)"
    and "K m = Finite k" and "0 < k" and "TotalWords m \<noteq> 0" and "words \<noteq> []"
  shows "Score env m words =
           Inr (Finite (\<Sum>i<length words.
             log_terms env m
               (map (GetWordIdNoCreate env m) words @ [UnknownWordId env, UnknownWordId env]) i))"
proof -
  have "(\<Sum>i\<leftarrow>[0..<n]. f i) = (\<Sum>i<n. f i)" for f :: "nat \<Rightarrow> real" and n
    by (simp add: interv_sum_list_conv_sum_set_nat atLeast0LessThan)
  then show ?thesis
    by (simp add: Score_nonempty [OF assms(6)] Score_sum_built [OF assms(1-5)])
qed

lemma boundary_ids:
  assumes "s1 \<noteq> []" and "s2 \<noteq> []"
  shows "(map f (concat (s1 # s2 # rest)) @ [u, u]) ! (length s1 - 1) = f (last s1)"
    and "(map f (concat (s1 # s2 # rest)) @ [u, u]) ! (length s1 - 1 + 1) = f (hd s2)"
    and "length s1 - 1 + 2 = length s1 + 1"
    and "length s1 - 1 < length (concat (s1 # s2 # rest))"
proof -
  from assms(1) obtain x xs where s1: "s1 = x # xs"
    by (cases s1) auto
  show "length s1 - 1 + 2 = length s1 + 1"
    and "length s1 - 1 < length (concat (s1 # s2 # rest))"
    by (simp_all add: s1)
  from assms show "(map f (concat (s1 # s2 # rest)) @ [u, u]) ! (length s1 - 1) = f (last s1)"
    by (simp add: nth_append last_conv_nth)
  from assms show
    "(map f (concat (s1 # s2 # rest)) @ [u, u]) ! (length s1 - 1 + 1) = f (hd s2)"
    by (simp add: nth_append hd_conv_nth)
qed

text \<open>
  Claim C10. The text overload of \<open>Score\<close> scores the concatenation of the words of
  all the sentences that the tokenizer returns, as one word sequence, accumulating over
  every position of the concatenation. At the position of the last word of a sentence
  that is followed by another sentence, the loop body adds the logarithms of the bigram
  estimator at (last word, first word of the next sentence) and of the trigram estimator
  at (last word, first word of the next sentence, the word after it): these terms are
  computed across the sentence boundary. In training, the bigram and trigram keys are
  the adjacent pairs and triples of the single sentences only.
\<close>

theorem text_score_concat:
  "ScoreText env m str = Score env m (concat (Tokenizer_Process env (Tokenizer m) str)) \<and>
   (concat (Tokenizer_Process env (Tokenizer m) str) \<noteq> [] \<longrightarrow>
      ScoreText env m str =
        Score_sum env m
          (map (GetWordIdNoCreate env m) (concat (Tokenizer_Process env (Tokenizer m) str)) @
             [UnknownWordId env, UnknownWordId env])
          [0..<length (concat (Tokenizer_Process env (Tokenizer m) str))] (Finite 0)) \<and>
   (Tokenizer_Process env (Tokenizer m) str = s1 # s2 # rest \<and> s1 \<noteq> [] \<and> s2 \<noteq> [] \<longrightarrow>
      length s1 - 1 < length (concat (Tokenizer_Process env (Tokenizer m) str)) \<and>
      Score_step env m
        (map (GetWordIdNoCreate env m) (concat (Tokenizer_Process env (Tokenizer m) str)) @
           [UnknownWordId env, UnknownWordId env])
        (length s1 - 1) r =
        (case GetGram1Prob env m (GetWordIdNoCreate env m (last s1)) of
           Inl e \<Rightarrow> Inl e
         | Inr p1 \<Rightarrow>
        (case GetGram2Prob env m (GetWordIdNoCreate env m (last s1))
                (GetWordIdNoCreate env m (hd s2)) of
           Inl e \<Rightarrow> Inl e
         | Inr p2 \<Rightarrow>
        (case GetGram3Prob env m (GetWordIdNoCreate env m (last s1))
                (GetWordIdNoCreate env m (hd s2))
                ((map (GetWordIdNoCreate env m)
                    (concat (Tokenizer_Process env (Tokenizer m) str)) @
                  [UnknownWordId env, UnknownWordId env]) ! (length s1 + 1)) of
           Inl e \<Rightarrow> Inl e
         | Inr p3 \<Rightarrow> Inr (dadd (dadd (dadd r (dlog p1)) (dlog p2)) (dlog p3)))))) \<and>
   fst ` set (Grams2 (Train_loop m0 sentenceIds)) =
     fst ` set (Grams2 m0) \<union> (\<Union>ws\<in>set sentenceIds. set (adjacent_pairs ws)) \<and>
   fst ` set (Grams3 (Train_loop m0 sentenceIds)) =
     fst ` set (Grams3 m0) \<union> (\<Union>ws\<in>set sentenceIds. set (adjacent_triples ws))"
proof (intro conjI impI)
  show t: "ScoreText env m str = Score env m (concat (Tokenizer_Process env (Tokenizer m) str))"
    by (simp add: ScoreText_def push_sentences_eq)
  show "ScoreText env m str =
      Score_sum env m
        (map (GetWordIdNoCreate env m) (concat (Tokenizer_Process env (Tokenizer m) str)) @
           [UnknownWordId env, UnknownWordId env])
        [0..<length (concat (Tokenizer_Process env (Tokenizer m) str))] (Finite 0)"
    if "concat (Tokenizer_Process env (Tokenizer m) str) \<noteq> []"
    unfolding t by (rule Score_nonempty [OF that])
next
  assume h: "Tokenizer_Process env (Tokenizer m) str = s1 # s2 # rest \<and> s1 \<noteq> [] \<and> s2 \<noteq> []"
  then have ne: "s1 \<noteq> []" "s2 \<noteq> []" and tok: "Tokenizer_Process env (Tokenizer m) str = s1 # s2 # rest"
    by simp_all
  show "length s1 - 1 < length (concat (Tokenizer_Process env (Tokenizer m) str))"
    unfolding tok by (rule boundary_ids(4) [OF ne])
  show "Score_step env m
        (map (GetWordIdNoCreate env m) (concat (Tokenizer_Process env (Tokenizer m) str)) @
           [UnknownWordId env, UnknownWordId env])
        (length s1 - 1) r =
        (case GetGram1Prob env m (GetWordIdNoCreate env m (last s1)) of
           Inl e \<Rightarrow> Inl e
         | Inr p1 \<Rightarrow>
        (case GetGram2Prob env m (GetWordIdNoCreate env m (last s1))
                (GetWordIdNoCreate env m (hd s2)) of
           Inl e \<Rightarrow> Inl e
         | Inr p2 \<Rightarrow>
        (case GetGram3Prob env m (GetWordIdNoCreate env m (last s1))
                (GetWordIdNoCreate env m (hd s2))
                ((map (GetWordIdNoCreate env m)
                    (concat (Tokenizer_Process env (Tokenizer m) str)) @
                  [UnknownWordId env, UnknownWordId env]) ! (length s1 + 1)) of
           Inl e \<Rightarrow> Inl e
         | Inr p3 \<Rightarrow> Inr (dadd (dadd (dadd r (dlog p1)) (dlog p2)) (dlog p3)))))"
    unfolding tok Score_step_def boundary_ids(1,2,3) [OF ne] by (rule refl)
next
  show "fst ` set (Grams2 (Train_loop m0 sentenceIds)) =
     fst ` set (Grams2 m0) \<union> (\<Union>ws\<in>set sentenceIds. set (adjacent_pairs ws))"
    by (rule Train_loop_keys(1))
  show "fst ` set (Grams3 (Train_loop m0 sentenceIds)) =
     fst ` set (Grams3 m0) \<union> (\<Union>ws\<in>set sentenceIds. set (adjacent_triples ws))"
    by (rule Train_loop_keys(2))
qed

text \<open>
  Claim C4, amended. For a non-empty sequence of \<open>len\<close> words, \<open>Score\<close> looks each
  word up with \<open>GetWordIdNoCreate\<close>, appends two \<open>UnknownWordId\<close> sentinels, and
  accumulates over every position from \<open>0\<close> to \<open>len - 1\<close> inclusive; at a position
  where the three estimators return \<open>p1\<close>, \<open>p2\<close>, \<open>p3\<close> it adds
  \<open>ln p1\<close>, \<open>ln p2\<close> and \<open>ln p3\<close>, in this order. On a built model the result
  is the sum over these positions of \<open>ln P1 + ln P2 + ln P3\<close>.
\<close>

theorem score_sum_all_positions:
  "(words \<noteq> [] \<longrightarrow>
      Score env m words =
        Score_sum env m
          (map (GetWordIdNoCreate env m) words @ [UnknownWordId env, UnknownWordId env])
          [0..<length words] (Finite 0)) \<and>
   (GetGram1Prob env m (s ! i) = Inr p1 \<and>
    GetGram2Prob env m (s ! i) (s ! (i + 1)) = Inr p2 \<and>
    GetGram3Prob env m (s ! i) (s ! (i + 1)) (s ! (i + 2)) = Inr p3 \<longrightarrow>
      Score_step env m s i r = Inr (dadd (dadd (dadd r (dlog p1)) (dlog p2)) (dlog p3))) \<and>
   ((\<forall>key. unat (Hash (PerfectHash m) key) < BucketsNumber (PerfectHash m)) \<and>
    length (Buckets m) = BucketsNumber (PerfectHash m) \<and>
    K m = Finite k \<and> 0 < k \<and> TotalWords m \<noteq> 0 \<and> words \<noteq> [] \<longrightarrow>
      Score env m words =
        Inr (Finite (\<Sum>i<length words.
          log_terms env m
            (map (GetWordIdNoCreate env m) words @ [UnknownWordId env, UnknownWordId env]) i)))"
proof (intro conjI impI)
  assume "words \<noteq> []"
  then show "Score env m words =
      Score_sum env m
        (map (GetWordIdNoCreate env m) words @ [UnknownWordId env, UnknownWordId env])
        [0..<length words] (Finite 0)"
    by (rule Score_nonempty)
next
  assume "GetGram1Prob env m (s ! i) = Inr p1 \<and>
    GetGram2Prob env m (s ! i) (s ! (i + 1)) = Inr p2 \<and>
    GetGram3Prob env m (s ! i) (s ! (i + 1)) (s ! (i + 2)) = Inr p3"
  then show "Score_step env m s i r = Inr (dadd (dadd (dadd r (dlog p1)) (dlog p2)) (dlog p3))"
    by (simp add: Score_step_def)
next
  assume h: "(\<forall>key. unat (Hash (PerfectHash m) key) < BucketsNumber (PerfectHash m)) \<and>
    length (Buckets m) = BucketsNumber (PerfectHash m) \<and>
    K m = Finite k \<and> 0 < k \<and> TotalWords m \<noteq> 0 \<and> words \<noteq> []"
  then have built: "\<forall>key. unat (Hash (PerfectHash m) key) < BucketsNumber (PerfectHash m)"
    "length (Buckets m) = BucketsNumber (PerfectHash m)"
    "K m = Finite k" "0 < k" "TotalWords m \<noteq> 0" "words \<noteq> []"
    by simp_all
  show "Score env m words =
      Inr (Finite (\<Sum>i<length words.
        log_terms env m
          (map (GetWordIdNoCreate env m) words @ [UnknownWordId env, UnknownWordId env]) i))"
    by (rule Score_built [OF built])
qed

lemma counts_on_contract:
  assumes "\<forall>key. unat (Hash (PerfectHash m) key) < BucketsNumber (PerfectHash m)"
    and "length (Buckets m) = BucketsNumber (PerfectHash m)"
  shows "GetGram1HashCount env m a = Inr (count1 env m a)"
    and "GetGram2HashCount env m a b = Inr (count2 env m a b)"
    and "GetGram3HashCount env m a b c = Inr (count3 env m a b c)"
  using assms
  by (simp_all add: GetGram1HashCount_def GetGram2HashCount_def GetGram3HashCount_def
      GetGramHashCount_in_range count1_def count2_def count3_def fingerprint_count_def Let_def)

lemma probs_on_contract:
  assumes "\<forall>key. unat (Hash (PerfectHash m) key) < BucketsNumber (PerfectHash m)"
    and "length (Buckets m) = BucketsNumber (PerfectHash m)"
  shows "GetGram1Prob env m a = Inr (P1 env m a)"
    and "GetGram2Prob env m a b = Inr (P2 env m a b)"
    and "GetGram3Prob env m a b c = Inr (P3 env m a b c)"
  by (simp_all add: P1_def P2_def P3_def
      prob1_formula [OF counts_on_contract(1) [OF assms]]
      prob2_formula [OF counts_on_contract(1) [OF assms] counts_on_contract(2) [OF assms]]
      prob3_formula [OF counts_on_contract(2) [OF assms] counts_on_contract(3) [OF assms]])

lemma Score_step_on_contract:
  assumes "\<forall>key. unat (Hash (PerfectHash m) key) < BucketsNumber (PerfectHash m)"
    and "length (Buckets m) = BucketsNumber (PerfectHash m)"
  shows "Score_step env m w i r =
           Inr (dadd (dadd (dadd r (dlog (P1 env m (w ! i))))
                           (dlog (P2 env m (w ! i) (w ! (i + 1)))))
                     (dlog (P3 env m (w ! i) (w ! (i + 1)) (w ! (i + 2)))))"
  unfolding Score_step_def probs_on_contract [OF assms] by simp

lemma Score_sum_on_contract:
  assumes "\<forall>key. unat (Hash (PerfectHash m) key) < BucketsNumber (PerfectHash m)"
    and "length (Buckets m) = BucketsNumber (PerfectHash m)"
  shows "Score_sum env m w positions r = Inr (log_probability env m w positions r)"
proof (induction positions arbitrary: r)
  case Nil
  show ?case by simp
next
  case (Cons i positions)
  show ?case
    unfolding Score_sum.simps Score_step_on_contract [OF assms] log_probability.simps
    by (simp add: Cons)
qed

text \<open>
  Claim C6, amended. On a model whose perfect hash maps every key to a bucket below
  \<open>BucketsNumber\<close> and whose bucket array has that size, \<open>Score\<close> never fails: for
  the empty sequence it returns the sentinel \<^verbatim>\<open>std::numeric_limits<double>::min()\<close>,
  and for every non-empty sequence, whether its words are known or not, it returns the
  value accumulated over all its positions from the logarithms of the three estimators.
  This value need not be finite.
\<close>

theorem score_never_aborts:
  assumes "\<forall>key. unat (Hash (PerfectHash m) key) < BucketsNumber (PerfectHash m)"
    and "length (Buckets m) = BucketsNumber (PerfectHash m)"
  shows "Score env m [] = Inr DBL_MIN \<and>
         (words \<noteq> [] \<longrightarrow>
            Score env m words =
              Inr (log_probability env m
                     (map (GetWordIdNoCreate env m) words @
                        [UnknownWordId env, UnknownWordId env])
                     [0..<length words] (Finite 0)))"
proof
  show "Score env m [] = Inr DBL_MIN"
    by (simp add: Score_def)
  show "words \<noteq> [] \<longrightarrow>
      Score env m words =
        Inr (log_probability env m
               (map (GetWordIdNoCreate env m) words @ [UnknownWordId env, UnknownWordId env])
               [0..<length words] (Finite 0))"
    by (simp add: Score_nonempty Score_sum_on_contract [OF assms])
qed

section \<open>What training and loading establish\<close>

lemma length_resize: "length (resize xs n d) = n"
  by (simp add: resize_def)

lemma InitializeBuckets_length:
  "InitializeBuckets env dump grams ph buckets = Inr b \<Longrightarrow> length b = length buckets"
  by (induction grams arbitrary: buckets) (auto simp: Let_def split: if_splits)

lemma ConvertWords_K: "ConvertWords m words acc = Inr (ids, m') \<Longrightarrow> K m' = K m"
proof (induction words arbitrary: m acc)
  case Nil
  then show ?case by simp
next
  case (Cons w words)
  then show ?case
    by (auto simp: GetWordId_def Let_def split: sum.splits if_splits option.splits)
qed

lemma ConvertSentences_K: "ConvertSentences m ss acc = Inr (ids, m') \<Longrightarrow> K m' = K m"
proof (induction ss arbitrary: m acc)
  case Nil
  then show ?case by simp
next
  case (Cons s ss)
  then show ?case
    by (auto split: sum.splits dest: ConvertWords_K)
qed

lemma Train_loop_K: "K (Train_loop m ss) = K m"
proof (induction ss arbitrary: m)
  case Nil
  show ?case by simp
next
  case (Cons ws ss)
  have "K (Train_unigrams m ws) = K m" for m :: "('a, 'b word, 'c word) TLangModel"
    by (induction ws arbitrary: m) auto
  moreover have "K (Train_bigrams m ws j) = K m" for m :: "('a, 'b word, 'c word) TLangModel" and j
  proof (induction m ws j rule: Train_bigrams.induct)
    case (1 m words j)
    then show ?case by (subst Train_bigrams.simps) simp
  qed
  moreover have "K (Train_trigrams m ws j) = K m" for m :: "('a, 'b word, 'c word) TLangModel" and j
  proof (induction m ws j rule: Train_trigrams.induct)
    case (1 m words j)
    then show ?case by (subst Train_trigrams.simps) simp
  qed
  ultimately show ?case by (simp add: Cons Train_sentence_def)
qed

lemma Train_builds:
  assumes "Train env m alphabet trainText = Inr (True, m')"
  shows "length (Buckets m') = BucketsNumber (PerfectHash m') \<and> K m' = K m"
  using assms
  by (auto simp: Train_def Let_def ConvertToIds_def length_resize Train_loop_K
      split: option.splits if_splits sum.splits
      dest!: InitializeBuckets_length ConvertSentences_K)

lemma round_trip_fields:
  assumes "Load env (Save env m) m0 = Inr (True, m')"
  shows "K m' = K m \<and> WordToId m' = WordToId m \<and> TotalWords m' = TotalWords m \<and>
         Buckets m' = Buckets m \<and> PerfectHash m' = PerfectHash m \<and> Grams1 m' = Grams1 m0"
  using assms
  by (auto simp: Load_def Save_def SavePayload_def LoadPayload_def Let_def
      split: if_splits sum.splits)

lemma Load_rejects:
  "f_magic f \<noteq> MAGIC_BYTE env \<Longrightarrow> Load env f m = Inr (False, m)"
  "f_version f \<noteq> VERSION env \<Longrightarrow> Load env f m = Inr (False, m)"
  "f_magic f = MAGIC_BYTE env \<Longrightarrow> f_version f = VERSION env \<Longrightarrow>
   f_trailer f \<noteq> MAGIC_BYTE env \<Longrightarrow>
   Load env f m = Inr (False, Clear env (LoadPayload (f_payload f) m))"
  by (simp_all add: Load_def Let_def)

lemma rebuild_IdToWord_keep:
  "rebuild_IdToWord es u = Inr u' \<Longrightarrow>
   length u' = length u \<and> (j \<notin> unat ` snd ` set es \<longrightarrow> u' ! j = u ! j)"
proof (induction es arbitrary: u)
  case Nil
  then show ?case by simp
next
  case (Cons e es)
  then show ?case by (auto split: if_splits)
qed

lemma rebuild_IdToWord_nth:
  "rebuild_IdToWord entries v = Inr v' \<Longrightarrow> distinct (map snd entries) \<Longrightarrow>
   (w, i) \<in> set entries \<Longrightarrow> v' ! unat i = Some w"
proof (induction entries arbitrary: v)
  case Nil
  then show ?case by simp
next
  case (Cons it entries)
  show ?case
  proof (cases "(w, i) = it")
    case True
    from Cons.prems(1) have r: "rebuild_IdToWord entries (v[unat i := Some w]) = Inr v'"
      and lt: "unat i < length v"
      using True by (auto split: if_splits)
    from Cons.prems(2) True have "i \<notin> snd ` set entries" by force
    then have "unat i \<notin> unat ` snd ` set entries"
      by (force simp: image_iff word_unat_eq_iff)
    with rebuild_IdToWord_keep [OF r, of "unat i"] lt show ?thesis by simp
  next
    case False
    with Cons show ?thesis by (auto split: if_splits)
  qed
qed

lemma Load_rebuilds:
  assumes "Load env f m = Inr (True, m')" and "distinct (map snd (WordToId m'))"
    and "(w, i) \<in> set (WordToId m')"
  shows "IdToWord m' ! unat i = Some w \<and> length (IdToWord m') = length (WordToId m') + 1"
proof -
  let ?p = "LoadPayload (f_payload f) m"
  from assms(1) obtain v where
    v: "rebuild_IdToWord (WordToId ?p) (replicate (length (WordToId ?p) + 1) None) = Inr v"
    and m': "m' = ?p\<lparr>IdToWord := v\<rparr>"
    by (auto simp: Load_def Let_def resize_def split: if_splits sum.splits)
  from m' assms(2,3) have d: "distinct (map snd (WordToId ?p))" and e: "(w, i) \<in> set (WordToId ?p)"
    by simp_all
  from rebuild_IdToWord_nth [OF v d e] rebuild_IdToWord_keep [OF v, of 0] m'
  show ?thesis by simp
qed

lemma Clear_frame:
  "Buckets (Clear env m) = Buckets m \<and> PerfectHash (Clear env m) = PerfectHash m \<and>
   IdToWord (Clear env m) = IdToWord m"
  by (simp add: Clear_def)

lemma Load_never_writes_Grams1:
  "Load env f m = Inr (True, m') \<Longrightarrow> Grams1 m' = Grams1 m"
  by (auto simp: Load_def LoadPayload_def Let_def split: if_splits sum.splits)

section \<open>The concrete instance: counts, probabilities, scores\<close>

lemma ex_unk: "UnknownWordId ex_env = 0xFFFFFFFF"
  by (simp add: ex_env_def)

lemma ex_trained_sel:
  "K ex_trained = Finite 1"
  "WordToId ex_trained = [([97], 0), ([98], 1)]"
  "TotalWords ex_trained = 2"
  "Grams1 ex_trained = [(0, 1), (1, 1)]"
  "Buckets ex_trained = [(6758, 1), (6759, 1), (210460, 1)]"
  "PerfectHash ex_trained = ex_ph_init [[1, 0], [1, 1], [2, 0, 1]]"
  by (simp_all add: ex_trained_def)

lemma ex_counts:
  "GetGram1HashCount ex_env ex_trained 0 = Inr 1"
  "GetGram1HashCount ex_env ex_trained 1 = Inr 1"
  "GetGram1HashCount ex_env ex_trained 2 = Inr 0"
  "GetGram1HashCount ex_env ex_trained 0xFFFFFFFF = Inr 0"
  "GetGram2HashCount ex_env ex_trained 0 1 = Inr 1"
  "GetGram2HashCount ex_env ex_trained 1 0 = Inr 0"
  "GetGram2HashCount ex_env ex_trained 0 0xFFFFFFFF = Inr 0"
  "GetGram2HashCount ex_env ex_trained 1 0xFFFFFFFF = Inr 0"
  "GetGram3HashCount ex_env ex_trained 0 0xFFFFFFFF 0xFFFFFFFF = Inr 0"
  "GetGram3HashCount ex_env ex_trained 0 1 0xFFFFFFFF = Inr 0"
  "GetGram3HashCount ex_env ex_trained 0 1 0 = Inr 0"
  by (simp_all add: GetGram1HashCount_def GetGram2HashCount_def GetGram3HashCount_def
      GetGramHashCount_def ex_env_def ex_trained_sel ex_ph_init_sel ex_dump1_def ex_dump2_def
      ex_dump3_def ex_city_def Let_def)

lemma ex_ids:
  "GetWordIdNoCreate ex_env ex_trained ex_a = 0"
  "GetWordIdNoCreate ex_env ex_trained ex_b = 1"
  "GetWordIdNoCreate ex_env ex_trained ex_c = 0xFFFFFFFF"
  by (simp_all add: GetWordIdNoCreate_def ex_env_def ex_trained_sel ex_a_def ex_b_def ex_c_def
      ex_view_def wstring_of_def)

lemma ex_probs:
  "GetGram1Prob ex_env ex_trained 0 = Inr (Finite (1 / 2))"
  "GetGram2Prob ex_env ex_trained 0 0xFFFFFFFF = Inr (Finite (1 / 3))"
  "GetGram3Prob ex_env ex_trained 0 0xFFFFFFFF 0xFFFFFFFF = Inr (Finite (1 / 2))"
  by (simp_all add: prob1_formula [OF ex_counts(1)] prob2_formula [OF ex_counts(1,7)]
      prob3_formula [OF ex_counts(7,9)] P1_formula_def P2_formula_def P3_formula_def
      to_double_def ex_trained_sel)

lemma ex_score_a:
  "Score ex_env ex_trained [ex_a] = Inr (Finite (ln (1 / 2) + ln (1 / 3) + ln (1 / 2)))"
  by (simp add: Score_nonempty ex_ids ex_unk Score_step_def ex_probs)


lemma ex_load: "Load ex_env (Save ex_env ex_trained) ex_new = Inr (True, ex_loaded)"
  by (simp add: Load_def Save_def SavePayload_def LoadPayload_def ex_new_def New_model_def
      ex_trained_def ex_loaded_def resize_def Let_def)

lemma ex_bad_load: "Load ex_env ex_bad_file ex_new = Inr (False, ex_after_bad_load)"
  by (simp add: Load_def Save_def SavePayload_def LoadPayload_def Clear_def ex_new_def
      New_model_def ex_bad_file_def ex_trained_def ex_after_bad_load_def ex_env_def Let_def)

lemma ex_loaded_sel:
  "K ex_loaded = Finite 1"
  "WordToId ex_loaded = [([97], 0), ([98], 1)]"
  "TotalWords ex_loaded = 2"
  "Grams1 ex_loaded = []"
  "Buckets ex_loaded = [(6758, 1), (6759, 1), (210460, 1)]"
  "PerfectHash ex_loaded = ex_ph_init [[1, 0], [1, 1], [2, 0, 1]]"
  by (simp_all add: ex_loaded_def)

lemma ex_loaded_counts:
  "GetGram1HashCount ex_env ex_loaded 0 = Inr 1"
  "GetGram2HashCount ex_env ex_loaded 0 0xFFFFFFFF = Inr 0"
  "GetGram3HashCount ex_env ex_loaded 0 0xFFFFFFFF 0xFFFFFFFF = Inr 0"
  by (simp_all add: GetGram1HashCount_def GetGram2HashCount_def GetGram3HashCount_def
      GetGramHashCount_def ex_env_def ex_loaded_sel ex_ph_init_sel ex_dump1_def ex_dump2_def
      ex_dump3_def ex_city_def Let_def)

lemma ex_loaded_probs:
  "GetGram1Prob ex_env ex_loaded 0 = Inr (Finite 1)"
  "GetGram2Prob ex_env ex_loaded 0 0xFFFFFFFF = Inr (Finite (1 / 3))"
  "GetGram3Prob ex_env ex_loaded 0 0xFFFFFFFF 0xFFFFFFFF = Inr (Finite (1 / 2))"
  by (simp_all add: prob1_formula [OF ex_loaded_counts(1)]
      prob2_formula [OF ex_loaded_counts(1,2)] prob3_formula [OF ex_loaded_counts(2,3)]
      P1_formula_def P2_formula_def P3_formula_def to_double_def ex_loaded_sel)

lemma ex_loaded_id: "GetWordIdNoCreate ex_env ex_loaded ex_a = 0"
  by (simp add: GetWordIdNoCreate_def ex_loaded_sel ex_a_def ex_view_def wstring_of_def)

lemma ex_score_loaded_a:
  "Score ex_env ex_loaded [ex_a] = Inr (Finite (ln 1 + ln (1 / 3) + ln (1 / 2)))"
  by (simp add: Score_nonempty ex_loaded_id ex_unk Score_step_def ex_loaded_probs)

lemma ex_count3_b:
  "GetGram3HashCount ex_env ex_trained 1 0xFFFFFFFF 0xFFFFFFFF = Inr 0"
  by (simp add: GetGram3HashCount_def ex_unk)

lemma ex_probs_ab:
  "GetGram2Prob ex_env ex_trained 0 1 = Inr (Finite (2 / 3))"
  "GetGram3Prob ex_env ex_trained 0 1 0xFFFFFFFF = Inr (Finite (1 / 3))"
  "GetGram1Prob ex_env ex_trained 1 = Inr (Finite (1 / 2))"
  "GetGram2Prob ex_env ex_trained 1 0xFFFFFFFF = Inr (Finite (1 / 3))"
  "GetGram3Prob ex_env ex_trained 1 0xFFFFFFFF 0xFFFFFFFF = Inr (Finite (1 / 2))"
  by (simp_all add: prob1_formula [OF ex_counts(2)] prob2_formula [OF ex_counts(1,5)]
      prob2_formula [OF ex_counts(2,8)] prob3_formula [OF ex_counts(5,10)]
      prob3_formula [OF ex_counts(8) ex_count3_b]
      P1_formula_def P2_formula_def P3_formula_def to_double_def ex_trained_sel)

lemma ex_score_ab:
  "Score ex_env ex_trained [ex_a, ex_b] =
     Inr (Finite (ln (1 / 2) + ln (2 / 3) + ln (1 / 3) + ln (1 / 2) + ln (1 / 3) + ln (1 / 2)))"
  by (simp add: Score_nonempty ex_ids ex_unk Score_step_def ex_probs ex_probs_ab
      upt_conv_Cons)

lemma ex_claimed_a: "Score_claimed ex_env ex_trained [ex_a] = Inr (Finite 0)"
  by (simp add: Score_claimed_def)

lemma ex_claimed_ab:
  "Score_claimed ex_env ex_trained [ex_a, ex_b] =
     Inr (Finite (ln (1 / 2) + ln (2 / 3) + ln (1 / 3)))"
  by (simp add: Score_claimed_def ex_ids ex_unk Score_step_def ex_probs ex_probs_ab)

lemma ex_unknown_values:
  "P1 ex_env ex_trained (UnknownWordId ex_env) = Finite (1 / 4)"
  "P2 ex_env ex_trained (UnknownWordId ex_env) (UnknownWordId ex_env) = Finite (1 / 2)"
  "P3 ex_env ex_trained (UnknownWordId ex_env) (UnknownWordId ex_env) (UnknownWordId ex_env) =
     Finite (1 / 2)"
  by (simp_all add: P1_def P2_def P3_def count1_def count2_def count3_def P1_formula_def
      P2_formula_def P3_formula_def to_double_def ex_trained_sel)

text \<open>The sentinel for the empty sequence is a positive number.\<close>

lemma DBL_MIN_positive: "\<exists>x. DBL_MIN = Finite x \<and> 0 < x"
proof -
  have "(0 :: real) < 2 ^ 1022"
    by (rule zero_less_power) simp
  then have "(0 :: real) < 1 / 2 ^ 1022"
    by (rule divide_pos_pos [OF zero_less_one])
  then show ?thesis
    unfolding DBL_MIN_def by blast
qed

section \<open>Witnesses on the concrete instance\<close>

theorem lookup_protocol_witness:
  "GetGram1HashCount ex_env ex_trained (UnknownWordId ex_env) = Inr 0 \<and>
   GetGram2HashCount ex_env ex_trained 0 (UnknownWordId ex_env) = Inr 0 \<and>
   GetGram3HashCount ex_env ex_trained 0 1 (UnknownWordId ex_env) = Inr 0 \<and>
   bucket_in_range ex_trained (DumpKey1 ex_env 0) \<and>
   GetGram1HashCount ex_env ex_trained 0 = Inr 1 \<and>
   bucket_in_range ex_trained (DumpKey2 ex_env (0, 1)) \<and>
   GetGram2HashCount ex_env ex_trained 0 1 = Inr 1 \<and>
   bucket_in_range ex_trained (DumpKey3 ex_env (0, 1, 0)) \<and>
   CityHash32 ex_env (DumpKey3 ex_env (0, 1, 0)) \<noteq>
     fst (Buckets ex_trained ! unat (Hash (PerfectHash ex_trained) (DumpKey3 ex_env (0, 1, 0)))) \<and>
   GetGram3HashCount ex_env ex_trained 0 1 0 = Inr 0"
proof -
  have known: "(0 :: 32 word) \<noteq> UnknownWordId ex_env" "(1 :: 32 word) \<noteq> UnknownWordId ex_env"
    by (simp_all add: ex_env_def)
  have range:
    "bucket_in_range ex_trained (DumpKey1 ex_env 0)"
    "bucket_in_range ex_trained (DumpKey2 ex_env (0, 1))"
    "bucket_in_range ex_trained (DumpKey3 ex_env (0, 1, 0))"
    by (simp_all add: bucket_in_range_def ex_trained_sel ex_ph_init_sel ex_env_def
        ex_dump1_def ex_dump2_def ex_dump3_def)
  have mismatch:
    "CityHash32 ex_env (DumpKey3 ex_env (0, 1, 0)) \<noteq>
       fst (Buckets ex_trained ! unat (Hash (PerfectHash ex_trained) (DumpKey3 ex_env (0, 1, 0))))"
    by (simp add: ex_trained_sel ex_ph_init_sel ex_env_def ex_dump3_def ex_city_def)
  have stored:
    "fingerprint_count ex_env ex_trained (DumpKey1 ex_env 0) = 1"
    "fingerprint_count ex_env ex_trained (DumpKey2 ex_env (0, 1)) = 1"
    by (simp_all add: fingerprint_count_def ex_trained_sel ex_ph_init_sel ex_env_def
        ex_dump1_def ex_dump2_def ex_city_def)
  from lookup_protocol [of "UnknownWordId ex_env" ex_env ex_trained 0 0 "DumpKey3 ex_env (0, 1, 0)"]
    lookup_protocol [of 0 ex_env ex_trained "UnknownWordId ex_env" 0 "DumpKey3 ex_env (0, 1, 0)"]
    lookup_protocol [of 0 ex_env ex_trained 1 "UnknownWordId ex_env" "DumpKey3 ex_env (0, 1, 0)"]
    lookup_protocol [of 0 ex_env ex_trained 1 0 "DumpKey3 ex_env (0, 1, 0)"]
    known range mismatch stored
  show ?thesis by simp
qed

theorem score_never_aborts_witness:
  "(\<forall>key. unat (Hash (PerfectHash ex_trained) key) < BucketsNumber (PerfectHash ex_trained)) \<and>
   length (Buckets ex_trained) = BucketsNumber (PerfectHash ex_trained) \<and>
   Score ex_env ex_trained [] = Inr DBL_MIN \<and>
   Score ex_env ex_trained [ex_c, ex_c] =
     Inr (Finite (ln (1 / 4) + ln (1 / 2) + ln (1 / 2) + ln (1 / 4) + ln (1 / 2) + ln (1 / 2)))"
proof -
  let ?u = "UnknownWordId ex_env"
  have h: "\<forall>key. unat (Hash (PerfectHash ex_trained) key) < BucketsNumber (PerfectHash ex_trained)"
    by (simp add: ex_trained_sel ex_ph_init_sel)
  have b: "length (Buckets ex_trained) = BucketsNumber (PerfectHash ex_trained)"
    by (simp add: ex_trained_sel ex_ph_init_sel)
  have ne: "[ex_c, ex_c] \<noteq> []"
    by simp
  have ids: "map (GetWordIdNoCreate ex_env ex_trained) [ex_c, ex_c] @ [?u, ?u] = [?u, ?u, ?u, ?u]"
    by (simp add: ex_ids ex_unk)
  have u: "[0..<length [ex_c, ex_c]] = [0, 1]"
    by (simp add: upt_conv_Cons)
  have v: "log_probability ex_env ex_trained [?u, ?u, ?u, ?u] [0, 1] (Finite 0) =
      Finite (ln (1 / 4) + ln (1 / 2) + ln (1 / 2) + ln (1 / 4) + ln (1 / 2) + ln (1 / 2))"
    by (simp add: ex_unknown_values)
  from score_never_aborts [OF h b, of ex_env "[ex_c, ex_c]"] ne
  have "Score ex_env ex_trained [] = Inr DBL_MIN"
    and "Score ex_env ex_trained [ex_c, ex_c] =
      Inr (log_probability ex_env ex_trained [?u, ?u, ?u, ?u] [0, 1] (Finite 0))"
    unfolding ids u by blast+
  with h b v show ?thesis
    by simp
qed

text \<open>
  Claim C6 as stated fails: the result for a non-empty sequence is not always finite.
  In a model before training, and in a trained model after \<open>Clear\<close>,
  \<open>TotalWords\<close> and the vocabulary size are zero, every quotient is \<open>K / 0\<close>, and
  the score of a one-word sentence is \<open>+\<infinity>\<close>.
\<close>

theorem score_not_finite_counterexample:
  "[ex_c] \<noteq> [] \<and> Score ex_env ex_new [ex_c] = Inr PosInf \<and>
   [ex_a] \<noteq> [] \<and> Score ex_env (Clear ex_env ex_trained) [ex_a] = Inr PosInf"
  by (simp add: Score_nonempty Score_step_def GetGram1Prob_def GetGram2Prob_def GetGram3Prob_def
      GetGram1HashCount_def GetGram2HashCount_def GetGram3HashCount_def GetWordIdNoCreate_def
      ex_new_def New_model_def Clear_def ex_trained_def ex_env_def to_double_def Let_def)

text \<open>
  Claim C4 as stated fails: the code accumulates over \<open>len\<close> positions, the claim
  over \<open>len - 1\<close>. On the trained instance the two differ for the sentence \<open>a\<close>
  (the claim's sum is empty) and for the sentence \<open>a b\<close>.
\<close>

theorem score_positions_counterexample:
  "Score ex_env ex_trained [ex_a] \<noteq> Score_claimed ex_env ex_trained [ex_a] \<and>
   Score ex_env ex_trained [ex_a, ex_b] \<noteq> Score_claimed ex_env ex_trained [ex_a, ex_b]"
proof -
  have neg: "ln (1 / 2 :: real) < 0" "ln (1 / 3 :: real) < 0"
    by simp_all
  then have "ln (1 / 2 :: real) + ln (1 / 3) + ln (1 / 2) \<noteq> 0"
    by linarith
  moreover from neg have
    "ln (1 / 2 :: real) + ln (2 / 3) + ln (1 / 3) + ln (1 / 2) + ln (1 / 3) + ln (1 / 2) \<noteq>
     ln (1 / 2) + ln (2 / 3) + ln (1 / 3)"
    by linarith
  ultimately show ?thesis
    unfolding ex_score_a ex_score_ab ex_claimed_a ex_claimed_ab by simp
qed

theorem score_sum_all_positions_witness:
  "[ex_a, ex_b] \<noteq> [] \<and>
   Score ex_env ex_trained [ex_a, ex_b] =
     Score_sum ex_env ex_trained [0, 1, UnknownWordId ex_env, UnknownWordId ex_env] [0, 1]
       (Finite 0) \<and>
   GetGram1Prob ex_env ex_trained 0 = Inr (Finite (1 / 2)) \<and>
   GetGram2Prob ex_env ex_trained 0 1 = Inr (Finite (2 / 3)) \<and>
   GetGram3Prob ex_env ex_trained 0 1 (UnknownWordId ex_env) = Inr (Finite (1 / 3)) \<and>
   Score_step ex_env ex_trained [0, 1, UnknownWordId ex_env, UnknownWordId ex_env] 0 (Finite 0) =
     Inr (dadd (dadd (dadd (Finite 0) (dlog (Finite (1 / 2)))) (dlog (Finite (2 / 3))))
            (dlog (Finite (1 / 3)))) \<and>
   (\<forall>key. unat (Hash (PerfectHash ex_trained) key) < BucketsNumber (PerfectHash ex_trained)) \<and>
   length (Buckets ex_trained) = BucketsNumber (PerfectHash ex_trained) \<and>
   K ex_trained = Finite 1 \<and> TotalWords ex_trained \<noteq> 0 \<and>
   Score ex_env ex_trained [ex_a, ex_b] =
     Inr (Finite (\<Sum>i<length [ex_a, ex_b].
       log_terms ex_env ex_trained [0, 1, UnknownWordId ex_env, UnknownWordId ex_env] i))"
proof -
  let ?s = "[0, 1, UnknownWordId ex_env, UnknownWordId ex_env]"
  have ne: "[ex_a, ex_b] \<noteq> []"
    by simp
  have p1: "GetGram1Prob ex_env ex_trained (?s ! 0) = Inr (Finite (1 / 2))"
    and p2: "GetGram2Prob ex_env ex_trained (?s ! 0) (?s ! (0 + 1)) = Inr (Finite (2 / 3))"
    and p3: "GetGram3Prob ex_env ex_trained (?s ! 0) (?s ! (0 + 1)) (?s ! (0 + 2)) =
       Inr (Finite (1 / 3))"
    by (simp_all add: ex_probs ex_probs_ab ex_unk)
  have q: "GetGram1Prob ex_env ex_trained 0 = Inr (Finite (1 / 2))"
    "GetGram2Prob ex_env ex_trained 0 1 = Inr (Finite (2 / 3))"
    "GetGram3Prob ex_env ex_trained 0 1 (UnknownWordId ex_env) = Inr (Finite (1 / 3))"
    by (simp_all add: ex_probs ex_probs_ab ex_unk)
  have ids: "map (GetWordIdNoCreate ex_env ex_trained) [ex_a, ex_b] @
      [UnknownWordId ex_env, UnknownWordId ex_env] = ?s"
    by (simp add: ex_ids)
  have u: "[0..<length [ex_a, ex_b]] = [0, 1]"
    by (simp add: upt_conv_Cons)
  have built:
    "\<forall>key. unat (Hash (PerfectHash ex_trained) key) < BucketsNumber (PerfectHash ex_trained)"
    "length (Buckets ex_trained) = BucketsNumber (PerfectHash ex_trained)"
    "K ex_trained = Finite 1" "TotalWords ex_trained \<noteq> 0"
    by (simp_all add: ex_trained_sel ex_ph_init_sel)
  have pos: "(0 :: real) < 1"
    by simp
  note T = score_sum_all_positions [of "[ex_a, ex_b]" ex_env ex_trained ?s 0 "Finite (1 / 2)"
      "Finite (2 / 3)" "Finite (1 / 3)" "Finite 0" 1, unfolded ids u]
  from T ne have a: "Score ex_env ex_trained [ex_a, ex_b] =
      Score_sum ex_env ex_trained ?s [0, 1] (Finite 0)"
    by blast
  from T p1 p2 p3 have b: "Score_step ex_env ex_trained ?s 0 (Finite 0) =
      Inr (dadd (dadd (dadd (Finite 0) (dlog (Finite (1 / 2)))) (dlog (Finite (2 / 3))))
             (dlog (Finite (1 / 3))))"
    by blast
  from T built pos ne have c: "Score ex_env ex_trained [ex_a, ex_b] =
      Inr (Finite (\<Sum>i<length [ex_a, ex_b]. log_terms ex_env ex_trained ?s i))"
    by blast
  from ne a q b built c show ?thesis
    by blast
qed

theorem text_score_concat_witness:
  "Tokenizer_Process ex_env (Tokenizer ex_trained) [97, 46, 98] = [ex_a] # [ex_b] # [] \<and>
   ScoreText ex_env ex_trained [97, 46, 98] = Score ex_env ex_trained [ex_a, ex_b] \<and>
   ScoreText ex_env ex_trained [97, 46, 98] =
     Inr (Finite (ln (1 / 2) + ln (2 / 3) + ln (1 / 3) + ln (1 / 2) + ln (1 / 3) + ln (1 / 2))) \<and>
   GetGram2HashCount ex_env ex_trained 0 1 = Inr 1 \<and>
   GetGram2Prob ex_env ex_trained 0 1 = Inr (Finite (2 / 3)) \<and>
   Score_step ex_env ex_trained [0, 1, UnknownWordId ex_env, UnknownWordId ex_env] 0 (Finite 0) =
     Inr (dadd (dadd (dadd (Finite 0) (dlog (Finite (1 / 2)))) (dlog (Finite (2 / 3))))
            (dlog (Finite (1 / 3)))) \<and>
   Grams2 (Train_loop ex_new [[0], [1]]) = []"
proof -
  let ?u = "UnknownWordId ex_env"
  have tok: "Tokenizer_Process ex_env (Tokenizer ex_trained) [97, 46, 98] = [ex_a] # [ex_b] # []"
    by (simp add: ex_env_def ex_trained_def ex_process_def ex_a_def ex_b_def)
  have ne: "[ex_a] \<noteq> []" "[ex_b] \<noteq> []"
    by simp_all
  have tr: "Grams2 (Train_loop ex_new [[0], [1]]) = []"
    by (simp add: Train_sentence_def Train_bigrams.simps Train_trigrams.simps ex_new_def
        New_model_def)
  have ids: "map (GetWordIdNoCreate ex_env ex_trained) (concat ([ex_a] # [ex_b] # [])) @ [?u, ?u] =
      [0, 1, ?u, ?u]"
    by (simp add: ex_ids)
  have third: "[0, 1, ?u, ?u] ! (length [ex_a] + 1) = ?u"
    by simp
  have p: "GetGram1Prob ex_env ex_trained (GetWordIdNoCreate ex_env ex_trained (last [ex_a])) =
      Inr (Finite (1 / 2))"
    "GetGram2Prob ex_env ex_trained (GetWordIdNoCreate ex_env ex_trained (last [ex_a]))
       (GetWordIdNoCreate ex_env ex_trained (hd [ex_b])) = Inr (Finite (2 / 3))"
    "GetGram3Prob ex_env ex_trained (GetWordIdNoCreate ex_env ex_trained (last [ex_a]))
       (GetWordIdNoCreate ex_env ex_trained (hd [ex_b])) ?u = Inr (Finite (1 / 3))"
    by (simp_all add: ex_ids ex_probs ex_probs_ab ex_unk)
  note T = text_score_concat [of ex_env ex_trained "[97, 46, 98]" "[ex_a]" "[ex_b]" "[]" "Finite 0"
      ex_new "[[0], [1]]", unfolded tok ids third p]
  from T have a: "ScoreText ex_env ex_trained [97, 46, 98] = Score ex_env ex_trained [ex_a, ex_b]"
    by simp
  from T ne have b:
    "Score_step ex_env ex_trained [0, 1, ?u, ?u] (length [ex_a] - 1) (Finite 0) =
       Inr (dadd (dadd (dadd (Finite 0) (dlog (Finite (1 / 2)))) (dlog (Finite (2 / 3))))
              (dlog (Finite (1 / 3))))"
    by simp
  have q: "GetGram2Prob ex_env ex_trained 0 1 = Inr (Finite (2 / 3))"
    by (rule ex_probs_ab(1))
  from tok a a [unfolded ex_score_ab] ex_counts(5) q b tr show ?thesis
    by simp
qed

section \<open>Save and Load on the concrete instance\<close>

text \<open>
  Claim C1 fails on the code. \<open>ex_trained\<close> is the model that \<open>Train\<close> builds from
  the corpus \<open>a b\<close>; saving it and loading the file into a model before training gives
  \<open>ex_loaded\<close>, in which \<open>Grams1\<close> is empty, because the payload does not carry it
  and \<open>Load\<close> does not restore it. The vocabulary size in \<open>GetGram1Prob\<close> is
  then 0 instead of 2: the probability of the word \<open>a\<close> is 1 instead of 1/2, and the
  score of the sentence \<open>a\<close> differs.
\<close>

theorem round_trip_changes_score:
  "Train ex_env ex_new (Some {97, 98}) [97, 32, 98] = Inr (True, ex_trained) \<and>
   Load ex_env (Save ex_env ex_trained) ex_new = Inr (True, ex_loaded) \<and>
   GetGram1Prob ex_env ex_trained 0 = Inr (Finite (1 / 2)) \<and>
   GetGram1Prob ex_env ex_loaded 0 = Inr (Finite 1) \<and>
   Score ex_env ex_loaded [ex_a] \<noteq> Score ex_env ex_trained [ex_a]"
proof -
  have "ln (1 / 2 :: real) \<noteq> ln 1"
    by simp
  then have "Score ex_env ex_loaded [ex_a] \<noteq> Score ex_env ex_trained [ex_a]"
    unfolding ex_score_loaded_a ex_score_a by simp
  then show ?thesis
    by (simp add: ex_train ex_load ex_probs ex_loaded_probs)
qed

text \<open>
  Claim C2 fails on the code for a model built by \<open>Load\<close>, by the defect of claim C1.
  \<open>ex_loaded\<close> holds two distinct unigrams, each stored with count 1, and
  \<open>TotalWords = 2\<close>, \<open>K = 1\<close>: the claim's \<open>P1\<close> of the word \<open>a\<close> is
  \<open>(1 + 1) / (2 + 2) = 1/2\<close>, as in the trained model, but \<open>GetGram1Prob\<close> takes
  the vocabulary size from the empty \<open>Grams1\<close> and returns 1.
\<close>

theorem estimator_vocabulary_size_after_load:
  "Load ex_env (Save ex_env ex_trained) ex_new = Inr (True, ex_loaded) \<and>
   GetGram1HashCount ex_env ex_loaded 0 = Inr 1 \<and>
   GetGram1HashCount ex_env ex_loaded 1 = Inr 1 \<and>
   K ex_loaded = Finite 1 \<and> TotalWords ex_loaded = 2 \<and> length (WordToId ex_loaded) = 2 \<and>
   GetGram1Prob ex_env ex_loaded 0 = Inr (Finite 1) \<and>
   P1_formula (K ex_loaded) (TotalWords ex_loaded) 2 (1 :: 32 word) = Finite (1 / 2) \<and>
   GetGram1Prob ex_env ex_trained 0 =
     Inr (P1_formula (K ex_trained) (TotalWords ex_trained) 2 (1 :: 32 word))"
proof -
  have c: "GetGram1HashCount ex_env ex_loaded 1 = Inr 1"
    by (simp add: GetGram1HashCount_def GetGramHashCount_def ex_env_def ex_loaded_sel
        ex_ph_init_sel ex_dump1_def ex_city_def Let_def)
  have f: "P1_formula (K ex_loaded) (TotalWords ex_loaded) 2 (1 :: 32 word) = Finite (1 / 2)"
    "P1_formula (K ex_trained) (TotalWords ex_trained) 2 (1 :: 32 word) = Finite (1 / 2)"
    by (simp_all add: P1_formula_def to_double_def ex_loaded_sel ex_trained_sel)
  from ex_load ex_loaded_counts(1) c ex_loaded_probs(1) ex_probs(1) f show ?thesis
    by (simp add: ex_loaded_sel)
qed

text \<open>
  Claim C5 fails on the code. Loading a file whose leading magic and version are right
  and whose trailing magic is wrong returns failure after \<open>Clear\<close>, but \<open>Clear\<close>
  resets neither \<open>Buckets\<close> nor \<open>PerfectHash\<close> (lemma \<open>Clear_frame\<close>): the
  model left behind holds the bucket array and the perfect hash of the payload, and a
  lookup in it still answers with a stored count.
\<close>

theorem failed_load_keeps_store:
  "Load ex_env ex_bad_file ex_new = Inr (False, ex_after_bad_load) \<and>
   f_magic ex_bad_file = MAGIC_BYTE ex_env \<and> f_version ex_bad_file = VERSION ex_env \<and>
   f_trailer ex_bad_file \<noteq> MAGIC_BYTE ex_env \<and>
   Buckets ex_after_bad_load = [(6758, 1), (6759, 1), (210460, 1)] \<and>
   BucketsNumber (PerfectHash ex_after_bad_load) = 3 \<and>
   GetGram1HashCount ex_env ex_after_bad_load 0 = Inr 1"
proof -
  have hdr: "f_magic ex_bad_file = MAGIC_BYTE ex_env \<and> f_version ex_bad_file = VERSION ex_env \<and>
      f_trailer ex_bad_file \<noteq> MAGIC_BYTE ex_env"
    by (simp add: ex_bad_file_def Save_def ex_env_def)
  have store: "Buckets ex_after_bad_load = [(6758, 1), (6759, 1), (210460, 1)] \<and>
      BucketsNumber (PerfectHash ex_after_bad_load) = 3 \<and>
      GetGram1HashCount ex_env ex_after_bad_load 0 = Inr 1"
    by (simp add: ex_env_def ex_after_bad_load_def ex_ph_init_sel GetGram1HashCount_def
        GetGramHashCount_def ex_dump1_def ex_city_def Let_def)
  from ex_bad_load hdr store show ?thesis by simp
qed


end
